theory Spec2Isabelle
  imports Main "HOL-Library.Sublist"
begin

section \<open>Strings and numbers\<close>

text \<open>
  JavaScript strings are modelled as \<^typ>\<open>string\<close> (a list of 8-bit characters, the
  UTF-8 bytes of the text).  \<open>String(n)\<close> and a template literal \<open>${n}\<close> render a
  non-negative integer in decimal, a negative one with a leading minus sign.
\<close>

definition digit_char :: "nat \<Rightarrow> char" where
  "digit_char d = char_of (48 + d)"

function show_nat :: "nat \<Rightarrow> string" where
  "show_nat n = (if n < 10 then [digit_char n] else show_nat (n div 10) @ [digit_char (n mod 10)])"
  by pat_completeness auto
termination
  by (relation "measure (\<lambda>n. n)") auto

declare show_nat.simps [simp del]

definition show_int :: "int \<Rightarrow> string" where
  "show_int i = (if i < 0 then CHR ''-'' # show_nat (nat (- i)) else show_nat (nat i))"

section \<open>core/examples: numbering the examples of a document\<close>

text \<open>
  \<open>run()\<close> of \<open>src/core/examples.js\<close> walks the static node list returned by
  \<open>querySelectorAll("pre.example, pre.illegal-example, aside.example")\<close> in document
  order (for an empty list it returns at once).  An element is modelled by what the loop reads from it: its \<open>localName\<close>, whether
  its class list contains \<open>illegal-example\<close>, its \<open>title\<close> and \<open>id\<close> attributes (the empty
  string when absent, as the DOM reports them), its \<open>innerHTML\<close>, and whether
  \<open>closest("aside")\<close> finds an ancestor.
\<close>

record example_elem =
  localName :: string
  has_illegal_class :: bool
  elem_title :: string
  elem_id :: string
  innerHTML :: string
  closest_aside :: bool

text \<open>The \<open>Report\<close> typedef: \<open>title\<close> and \<open>content\<close> are optional properties.\<close>

record report =
  number :: nat
  illegal :: bool
  title :: "string option"
  content :: "string option"

text \<open>
  The marker built by \<open>makeTitle\<close>: the text of its \<open>bdi\<close> element (the number shown
  after the localized word "Example") and the text of the optional title span.
\<close>

record marker =
  bdi_text :: string
  title_span :: "string option"

text \<open>
  \<open>makeTitle(elem, num, report)\<close> stores the element's title in the report and renders
  the number only when it is positive.  It returns the marker and the updated report; the
  removal of the element's \<open>title\<close> attribute does not influence later iterations (the
  loop has read \<open>title\<close> before the call).
\<close>

definition makeTitle :: "example_elem \<Rightarrow> nat \<Rightarrow> report \<Rightarrow> marker \<times> report" where
  "makeTitle elem num rep =
     (let rep' = rep\<lparr>title := Some (elem_title elem)\<rparr>;
          number_text = (if num > 0 then CHR '' '' # show_nat num else [])
      in (\<lparr>bdi_text = number_text,
           title_span = (if elem_title elem \<noteq> [] then Some ('': '' @ elem_title elem) else None)\<rparr>,
          rep'))"

text \<open>
  What one iteration of the \<open>forEach\<close> callback leaves behind: the marker inserted into
  the document, the id moved from a \<open>pre\<close> to the \<open>div\<close> that wraps it, the calls made to
  \<open>addId\<close> (prefix and text; \<open>addId\<close> itself lives in \<open>core/utils.js\<close>), and the report
  published on the \<open>example\<close> topic, if any.
\<close>

record processed =
  shown :: marker
  relocated_id :: "string option"
  addId_calls :: "(string \<times> string) list"
  published :: "report option"

text \<open>
  The body of the callback, with the counter \<open>number\<close> passed in and returned.  The
  report object is created from the counter before either branch increments it.
\<close>

definition process_example :: "nat \<Rightarrow> example_elem \<Rightarrow> nat \<times> processed" where
  "process_example num example =
     (let rep = \<lparr>number = num, illegal = has_illegal_class example,
                 title = None, content = None\<rparr>;
          ttl = elem_title example
      in if localName example = ''aside'' then
           (let num' = num + 1;
                (marker_div, rep') = makeTitle example num' rep;
                ids = (if ttl \<noteq> [] then [(''example-'' @ show_nat num', ttl)]
                       else [(''example'', show_nat num')])
            in (num', \<lparr>shown = marker_div, relocated_id = None, addId_calls = ids,
                       published = Some rep'\<rparr>))
         else
           (let inAside = closest_aside example;
                num' = (if \<not> inAside then num + 1 else num);
                rep1 = rep\<lparr>content := Some (innerHTML example)\<rparr>;
                moved_id = (if elem_id example \<noteq> [] then Some (elem_id example) else None);
                (exampleTitle, rep') = makeTitle example (if inAside then 0 else num') rep1;
                ids = (if ttl \<noteq> [] then [(''example-'' @ show_nat num', ttl)] else [])
                      @ [(''example'', show_nat num')]
            in (num', \<lparr>shown = exampleTitle, relocated_id = moved_id, addId_calls = ids,
                       published = (if \<not> inAside then Some rep' else None)\<rparr>)))"

text \<open>The \<open>forEach\<close> loop, threading the counter through the node list.\<close>

fun run_from :: "nat \<Rightarrow> example_elem list \<Rightarrow> processed list" where
  "run_from num [] = []"
| "run_from num (example # examples) =
     (let (num', p) = process_example num example in p # run_from num' examples)"

definition run :: "example_elem list \<Rightarrow> processed list" where
  "run examples = run_from 0 examples"

text \<open>An element increments the counter when it is an aside, or a pre outside any aside.\<close>

definition increments :: "example_elem \<Rightarrow> bool" where
  "increments example \<longleftrightarrow> localName example = ''aside'' \<or> \<not> closest_aside example"

definition counted_upto :: "example_elem list \<Rightarrow> nat \<Rightarrow> nat" where
  "counted_upto examples i = length (filter increments (take i examples))"

text \<open>
  A small document: an aside example with a title, a pre nested in that aside, and an
  illegal example outside any aside.
\<close>

definition sample_examples :: "example_elem list" where
  "sample_examples =
     [\<lparr>localName = ''aside'', has_illegal_class = False, elem_title = ''First'', elem_id = [],
       innerHTML = ''<pre class=example>x</pre>'', closest_aside = True\<rparr>,
      \<lparr>localName = ''pre'', has_illegal_class = False, elem_title = [], elem_id = [],
       innerHTML = ''x'', closest_aside = True\<rparr>,
      \<lparr>localName = ''pre'', has_illegal_class = True, elem_title = [], elem_id = ''bad'',
       innerHTML = ''y'', closest_aside = False\<rparr>]"

section \<open>tools/respecDocWriter.js: values\<close>

text \<open>
  What JavaScript code can throw or reject with: an \<open>Error\<close> object with its message
  (\<open>TypeError\<close> and \<open>URIError\<close> kept apart), or a plain string (\<open>Thrown\<close>), as the
  readiness wait does with \<open>reject(msg)\<close>.
\<close>

datatype js_error = Error string | TypeError string | URIError string | Thrown string

text \<open>
  The entries of a version array.  \<open>parseInt\<close> returns an integer or \<open>NaN\<close>; integers are
  unbounded here, JavaScript's are exact up to \<open>2^53\<close>.  \<open>Null\<close> is what \<open>NaN\<close> becomes when
  the array is carried between the page and the controller by \<open>page.evaluate\<close>, which
  transports values as JSON.
\<close>

datatype js_number = Num int | NaN | Null

definition as_json :: "js_number \<Rightarrow> js_number" where
  "as_json x = (case x of NaN \<Rightarrow> Null | _ \<Rightarrow> x)"

section \<open>Data URLs and percent-encoding\<close>

text \<open>
  The modern extraction path receives a data URL from the in-page exporter, removes its
  prefix with \<open>dataURL.replace(/^data:\w+\/\w+;charset=utf-8,/, "")\<close> and hands the rest
  to \<open>decodeURIComponent\<close>.  Text is held as its UTF-8 bytes, so an escape \<open>%XX\<close> stands
  for one byte of the text.
\<close>

definition is_word :: "char \<Rightarrow> bool" where
  "is_word c \<longleftrightarrow>
     (let n = (of_char c :: nat)
      in (65 \<le> n \<and> n \<le> 90) \<or> (97 \<le> n \<and> n \<le> 122) \<or> (48 \<le> n \<and> n \<le> 57) \<or> n = 95)"

text \<open>
  The regular expression \<open>^data:\w+\/\w+;charset=utf-8,\<close> matched at the start of the
  string: the literal \<open>data:\<close>, a non-empty run of word characters, a slash, another
  non-empty run, and the literal \<open>;charset=utf-8,\<close>.  Each run is followed by a character
  that is not a word character, so only the longest run can match.  The result is what
  follows the match.
\<close>

definition match_data_prefix :: "string \<Rightarrow> string option" where
  "match_data_prefix s =
     (if prefix ''data:'' s then
        (let s1 = drop 5 s; s2 = dropWhile is_word s1
         in if takeWhile is_word s1 \<noteq> [] \<and> prefix ''/'' s2 then
              (let s3 = drop 1 s2; s4 = dropWhile is_word s3
               in if takeWhile is_word s3 \<noteq> [] \<and> prefix '';charset=utf-8,'' s4
                  then Some (drop 15 s4) else None)
            else None)
      else None)"

text \<open>\<open>String.prototype.replace\<close> with this pattern and the empty replacement.\<close>

definition replace_data_prefix :: "string \<Rightarrow> string" where
  "replace_data_prefix s = (case match_data_prefix s of Some rest \<Rightarrow> rest | None \<Rightarrow> s)"

definition hex_value :: "char \<Rightarrow> nat option" where
  "hex_value c =
     (let n = (of_char c :: nat)
      in if 48 \<le> n \<and> n \<le> 57 then Some (n - 48)
         else if 65 \<le> n \<and> n \<le> 70 then Some (n - 55)
         else if 97 \<le> n \<and> n \<le> 102 then Some (n - 87)
         else None)"

text \<open>\<open>ParseHexOctet\<close>: the byte written by the two characters at the head of the string.\<close>

definition ParseHexOctet :: "string \<Rightarrow> nat option" where
  "ParseHexOctet s =
     (case s of
        h1 # h2 # _ \<Rightarrow>
          (case hex_value h1 of
             None \<Rightarrow> None
           | Some a \<Rightarrow> (case hex_value h2 of None \<Rightarrow> None | Some b \<Rightarrow> Some (16 * a + b)))
      | _ \<Rightarrow> None)"

text \<open>The number of leading 1 bits of a byte (5 stands for five or more).\<close>

definition leading_ones :: "nat \<Rightarrow> nat" where
  "leading_ones b =
     (if b < 0x80 then 0 else if b < 0xC0 then 1 else if b < 0xE0 then 2
      else if b < 0xF0 then 3 else if b < 0xF8 then 4 else 5)"

definition continuation :: "nat \<Rightarrow> bool" where
  "continuation b \<longleftrightarrow> 0x80 \<le> b \<and> b \<le> 0xBF"

text \<open>
  Whether a list of bytes is the UTF-8 encoding of one Unicode code point: the
  well-formed byte sequences of the Unicode standard (no overlong forms, no surrogates,
  nothing above U+10FFFF).
\<close>

definition valid_utf8_sequence :: "nat list \<Rightarrow> bool" where
  "valid_utf8_sequence bs =
     (case bs of
        [b0] \<Rightarrow> b0 < 0x80
      | [b0, b1] \<Rightarrow> 0xC2 \<le> b0 \<and> b0 \<le> 0xDF \<and> continuation b1
      | [b0, b1, b2] \<Rightarrow>
          ((b0 = 0xE0 \<and> 0xA0 \<le> b1 \<and> b1 \<le> 0xBF)
           \<or> (((0xE1 \<le> b0 \<and> b0 \<le> 0xEC) \<or> b0 = 0xEE \<or> b0 = 0xEF) \<and> continuation b1)
           \<or> (b0 = 0xED \<and> 0x80 \<le> b1 \<and> b1 \<le> 0x9F))
          \<and> continuation b2
      | [b0, b1, b2, b3] \<Rightarrow>
          ((b0 = 0xF0 \<and> 0x90 \<le> b1 \<and> b1 \<le> 0xBF)
           \<or> (0xF1 \<le> b0 \<and> b0 \<le> 0xF3 \<and> continuation b1)
           \<or> (b0 = 0xF4 \<and> 0x80 \<le> b1 \<and> b1 \<le> 0x8F))
          \<and> continuation b2 \<and> continuation b3
      | _ \<Rightarrow> False)"

text \<open>
  The inner loop of \<open>Decode\<close>: after a leading byte, each of the \<open>j\<close> following bytes must
  be written as an escape \<open>%XX\<close>.  Returns the bytes and the rest of the string.
\<close>

fun read_continuation :: "nat \<Rightarrow> string \<Rightarrow> (nat list \<times> string) option" where
  "read_continuation 0 s = Some ([], s)"
| "read_continuation (Suc j) s =
     (case s of
        [] \<Rightarrow> None
      | c # rest \<Rightarrow>
          if c \<noteq> CHR ''%'' then None
          else (case ParseHexOctet rest of
                  None \<Rightarrow> None
                | Some b \<Rightarrow>
                    (case read_continuation j (drop 2 rest) of
                       None \<Rightarrow> None
                     | Some (bs, s') \<Rightarrow> Some (b # bs, s'))))"

text \<open>Reading escapes never makes the string longer.\<close>

lemma read_continuation_length:
  "read_continuation j s = Some (bs, s') \<Longrightarrow> length s' \<le> length s"
proof (induction j arbitrary: s bs s')
  case 0
  then show ?case by simp
next
  case (Suc j)
  then show ?case
    by (auto split: list.splits if_splits option.splits prod.splits)
       (metis diff_le_self le_SucI le_trans length_drop)
qed

text \<open>
  \<open>decodeURIComponent\<close>, following the \<open>Decode\<close> operation of ECMA-262 with an empty set
  of preserved escapes.  A character other than \<open>%\<close> is copied.  A \<open>%\<close> must be followed
  by two hexadecimal digits; a byte below 0x80 is the character itself; a leading byte
  announces \<open>n\<close> bytes, the others must follow as escapes, and together they must be valid
  UTF-8.  Every violation raises \<open>URIError\<close>.
\<close>

definition URI_malformed :: js_error where
  "URI_malformed = URIError ''URI malformed''"

function decodeURIComponent :: "string \<Rightarrow> js_error + string" where
  "decodeURIComponent [] = Inr []"
| "decodeURIComponent (c # s) =
     (if c \<noteq> CHR ''%'' then
        (case decodeURIComponent s of Inl e \<Rightarrow> Inl e | Inr r \<Rightarrow> Inr (c # r))
      else
        (case ParseHexOctet s of
           None \<Rightarrow> Inl URI_malformed
         | Some b \<Rightarrow>
             (let n = leading_ones b
              in if n = 0 then
                   (case decodeURIComponent (drop 2 s) of
                      Inl e \<Rightarrow> Inl e
                    | Inr r \<Rightarrow> Inr (char_of b # r))
                 else if n = 1 \<or> n > 4 then Inl URI_malformed
                 else
                   (case read_continuation (n - 1) (drop 2 s) of
                      None \<Rightarrow> Inl URI_malformed
                    | Some (bs, s') \<Rightarrow>
                        if valid_utf8_sequence (b # bs) then
                          (case decodeURIComponent s' of
                             Inl e \<Rightarrow> Inl e
                           | Inr r \<Rightarrow> Inr (map char_of (b # bs) @ r))
                        else Inl URI_malformed))))"
  by pat_completeness auto

termination
  by (relation "measure length") (auto dest: read_continuation_length)

declare decodeURIComponent.simps [simp del]

text \<open>
  Modelled from the spec: \<open>rsDocToDataURL\<close> of the module \<open>core/exporter\<close>, which is not
  among the source files.  The spec describes its result as the fixed prefix
  \<open>data:<mime>;charset=utf-8,\<close> followed by the percent-encoding of the markup.  The
  percent-encoding keeps the unreserved characters of \<open>encodeURIComponent\<close>
  (letters, digits and \<open>- _ . ! ~ * ' ( )\<close>) and writes every other byte of the UTF-8 text
  as \<open>%XX\<close> with upper-case hexadecimal digits.
\<close>

definition unreserved :: "char \<Rightarrow> bool" where
  "unreserved c \<longleftrightarrow>
     (let n = (of_char c :: nat)
      in (65 \<le> n \<and> n \<le> 90) \<or> (97 \<le> n \<and> n \<le> 122) \<or> (48 \<le> n \<and> n \<le> 57)
         \<or> c \<in> set ''-_.!~*'()'')"

definition hex_digit :: "nat \<Rightarrow> char" where
  "hex_digit d = (if d < 10 then char_of (48 + d) else char_of (55 + d))"

definition percent_escape :: "char \<Rightarrow> string" where
  "percent_escape c =
     [CHR ''%'', hex_digit ((of_char c :: nat) div 16), hex_digit ((of_char c :: nat) mod 16)]"

definition encodeURIComponent :: "string \<Rightarrow> string" where
  "encodeURIComponent s = concat (map (\<lambda>c. if unreserved c then [c] else percent_escape c) s)"

definition rsDocToDataURL :: "string \<Rightarrow> string \<Rightarrow> string" where
  "rsDocToDataURL mimeType markup =
     ''data:'' @ mimeType @ '';charset=utf-8,'' @ encodeURIComponent markup"



section \<open>tools/respecDocWriter.js: the version reported by the document\<close>

definition is_space :: "char \<Rightarrow> bool" where
  "is_space c \<longleftrightarrow> c \<in> set [CHR '' '', CHR 0x09, CHR 0x0A, CHR 0x0B, CHR 0x0C, CHR 0x0D]"

definition is_digit :: "char \<Rightarrow> bool" where
  "is_digit c \<longleftrightarrow> 48 \<le> (of_char c :: nat) \<and> (of_char c :: nat) \<le> 57"

definition digits_value :: "string \<Rightarrow> nat" where
  "digits_value ds = foldl (\<lambda>acc c. 10 * acc + ((of_char c :: nat) - 48)) 0 ds"

text \<open>
  \<open>parseInt(str, 10)\<close>: leading white space is skipped (the ASCII white space
  characters here), one sign is read, then the longest run of decimal digits; no
  digit gives \<open>NaN\<close>.
\<close>

definition parseInt :: "string \<Rightarrow> js_number" where
  "parseInt str =
     (let s = dropWhile is_space str;
          negative = (s \<noteq> [] \<and> hd s = CHR ''-'');
          s' = (if s \<noteq> [] \<and> (hd s = CHR ''+'' \<or> hd s = CHR ''-'') then tl s else s);
          z = takeWhile is_digit s'
      in if z = [] then NaN
         else Num ((if negative then - 1 else 1) * int (digits_value z)))"

text \<open>\<open>str.split(".")\<close>: the pieces between the dots; the empty string gives one empty piece.\<close>

fun split_dot :: "string \<Rightarrow> string list" where
  "split_dot [] = [[]]"
| "split_dot (c # s) =
     (if c = CHR ''.'' then [] # split_dot s
      else (case split_dot s of [] \<Rightarrow> [[c]] | p # ps \<Rightarrow> (c # p) # ps))"

definition getVersion :: "string \<Rightarrow> js_number list" where
  "getVersion respecVersion =
     (if respecVersion = ''Developer Edition'' then [Num 123456789, Num 0, Num 0]
      else map (\<lambda>str. parseInt str) (split_dot respecVersion))"

text \<open>
  Array destructuring \<open>const [major, minor] = version\<close> yields \<open>undefined\<close> (here \<open>None\<close>)
  past the end of the array.  The comparisons \<open>x < k\<close> and \<open>x === k\<close> with a number \<open>k\<close>
  are false when \<open>x\<close> is \<open>undefined\<close> or \<open>NaN\<close>; \<open>null\<close> counts as 0 in \<open>x < k\<close> and is
  never \<open>===\<close> to a number.
\<close>

definition element :: "'a list \<Rightarrow> nat \<Rightarrow> 'a option" where
  "element xs i = (if i < length xs then Some (xs ! i) else None)"

fun js_less :: "js_number option \<Rightarrow> int \<Rightarrow> bool" where
  "js_less (Some (Num i)) k = (i < k)"
| "js_less (Some Null) k = (0 < k)"
| "js_less _ k = False"

fun js_strict_eq :: "js_number option \<Rightarrow> int \<Rightarrow> bool" where
  "js_strict_eq (Some (Num i)) k = (i = k)"
| "js_strict_eq _ k = False"

text \<open>The condition of the \<open>if\<close> in \<open>evaluateHTML\<close> that selects the legacy export.\<close>

definition is_old_version :: "js_number list \<Rightarrow> bool" where
  "is_old_version version =
     (let major = element version 0; minor = element version 1
      in js_less major 20 \<or> (js_strict_eq major 20 \<and> js_less minor 10))"

text \<open>
  The order the spec speaks of: a triple is below \<open>(20, 10, 0)\<close> in the lexicographic
  order on (major, minor, patch).
\<close>

definition below_20_10_0 :: "nat \<times> nat \<times> nat \<Rightarrow> bool" where
  "below_20_10_0 v =
     (case v of (major, minor, patch) \<Rightarrow>
        major < 20 \<or> (major = 20 \<and> (minor < 10 \<or> (minor = 10 \<and> patch < 0))))"

definition version_triple :: "nat \<times> nat \<times> nat \<Rightarrow> js_number list" where
  "version_triple v =
     (case v of (major, minor, patch) \<Rightarrow> [Num (int major), Num (int minor), Num (int patch)])"

text \<open>\<open>version.join(".")\<close>; \<open>join\<close> renders \<open>null\<close> as the empty string.\<close>

definition show_number :: "js_number \<Rightarrow> string" where
  "show_number x = (case x of Num i \<Rightarrow> show_int i | NaN \<Rightarrow> ''NaN'' | Null \<Rightarrow> [])"

fun join_dot :: "string list \<Rightarrow> string" where
  "join_dot [] = []"
| "join_dot [x] = x"
| "join_dot (x # y # ys) = x @ ''.'' @ join_dot (y # ys)"

text \<open>The version string \<open>major.minor.patch\<close> of a triple of natural numbers.\<close>

definition version_string :: "nat \<times> nat \<times> nat \<Rightarrow> string" where
  "version_string v =
     (case v of (major, minor, patch) \<Rightarrow>
        show_nat major @ ''.'' @ show_nat minor @ ''.'' @ show_nat patch)"

section \<open>tools/respecDocWriter.js: effects and control flow\<close>

text \<open>
  An asynchronous function is modelled by how it completes and by the list of effects it
  has had on the outside world, in order.  It completes by returning a value (its promise
  resolves), by throwing (its promise rejects), or not at all because \<open>process.exit\<close>
  ended the process.  Every awaited promise of the environment is taken to settle.
\<close>

datatype 'a completion = Return 'a | Throw js_error | ProcessExit int

datatype effect =
    Mkdtemp string
  | Launch string "string list option" bool
  | NewPage
  | ExposeFunction string
  | EvaluateOnNewDocument
  | Goto string int
  | WaitForFunction
  | Evaluate string
  | OnError string
  | OnWarning string
  | ConsoleWarn string
  | Require string
  | BeforeWrite
  | StdoutWrite string
  | WriteFile string string string
  | ConsoleError js_error
  | PageClose
  | BrowserClose

type_synonym 'a io = "'a completion \<times> effect list"

definition ret :: "'a \<Rightarrow> 'a io" where
  "ret v = (Return v, [])"

definition throw :: "js_error \<Rightarrow> 'a io" where
  "throw e = (Throw e, [])"

definition emit :: "effect \<Rightarrow> unit io" where
  "emit eff = (Return (), [eff])"

text \<open>\<open>process.exit(code)\<close>: nothing after it runs, not even a \<open>finally\<close> block.\<close>

definition process_exit :: "int \<Rightarrow> 'a io" where
  "process_exit code = (ProcessExit code, [])"

text \<open>Sequencing: \<open>const v = await m; ... f(v)\<close>.\<close>

definition and_then :: "'a io \<Rightarrow> ('a \<Rightarrow> 'b io) \<Rightarrow> 'b io" where
  "and_then m f =
     (case m of
        (Return v, t) \<Rightarrow> (case f v of (c, t') \<Rightarrow> (c, t @ t'))
      | (Throw e, t) \<Rightarrow> (Throw e, t)
      | (ProcessExit code, t) \<Rightarrow> (ProcessExit code, t))"

text \<open>\<open>try { body } catch (err) { handler(err) }\<close>\<close>

definition try_catch :: "'a io \<Rightarrow> (js_error \<Rightarrow> 'a io) \<Rightarrow> 'a io" where
  "try_catch body handler =
     (case body of
        (Throw e, t) \<Rightarrow> (case handler e of (c, t') \<Rightarrow> (c, t @ t'))
      | (c, t) \<Rightarrow> (c, t))"

text \<open>
  \<open>try { body } finally { cleanup }\<close>: the cleanup runs after the body has returned or
  thrown.  If the cleanup throws, its error is the outcome of the whole statement; if it
  returns, the outcome of the body stands.
\<close>

definition try_finally :: "'a io \<Rightarrow> unit io \<Rightarrow> 'a io" where
  "try_finally body cleanup =
     (case body of
        (ProcessExit code, t) \<Rightarrow> (ProcessExit code, t)
      | (c, t) \<Rightarrow>
          (case cleanup of
             (Return _, t') \<Rightarrow> (c, t @ t')
           | (Throw e, t') \<Rightarrow> (Throw e, t @ t')
           | (ProcessExit code, t') \<Rightarrow> (ProcessExit code, t @ t')))"

text \<open>
  A call into the environment (file system, browser): the call is an effect, and the
  environment decides whether it returns a value or fails.
\<close>

definition call :: "effect \<Rightarrow> js_error + 'a \<Rightarrow> 'a io" where
  "call eff result = ((case result of Inl e \<Rightarrow> Throw e | Inr v \<Rightarrow> Return v), [eff])"

section \<open>tools/respecDocWriter.js: the environment\<close>

record url =
  href :: string
  origin :: string
  pathname :: string
  search :: string
  hash :: string

record response =
  ok :: bool
  status :: int

record dom_event =
  ev_type :: string
  detail :: string

text \<open>
  The \<open>options\<close> argument; a property that is absent is \<open>None\<close>.  The callbacks
  \<open>onError\<close>, \<open>onWarning\<close> and \<open>beforeWrite\<close> appear as the effects \<open>OnError\<close>,
  \<open>OnWarning\<close> and \<open>BeforeWrite\<close> of their invocations (of the caller's function, or of
  the default that does nothing).
\<close>

record options =
  timeout :: "int option"
  disableSandbox :: "bool option"
  debug :: "bool option"

text \<open>The awaits during which the loaded document can dispatch events.\<close>

datatype stage =
    At_goto | At_isRespec | At_waitForFunction | At_getVersion | At_evaluateHTML
  | At_beforeWrite | At_writeFile | At_pageClose

text \<open>
  How the readiness race of \<open>evaluateHTML\<close> goes: \<open>document.respecIsReady\<close> resolves or
  rejects before the timer fires, or the timer fires first.
\<close>

datatype ready_race = Ready_resolved | Ready_rejected js_error | Timer_first

text \<open>Library functions of Node.js, \<open>colors\<close> and Puppeteer that the code calls.\<close>

record library =
  new_URL :: "string \<Rightarrow> url option"
  colors_warn :: "string \<Rightarrow> string"
  colors_debug :: "string \<Rightarrow> string"
  path_isAbsolute :: "string \<Rightarrow> bool"
  path_resolve :: "string \<Rightarrow> string \<Rightarrow> string"
  err_stack :: "js_error \<Rightarrow> string"
  evaluate_error :: "js_error \<Rightarrow> js_error"

text \<open>
  The machine: directories, the file system, the caller's hook, and the clock (what
  \<open>Date.now()\<close> gives) at three points of a run: when \<open>createTimer\<close> is called, when
  \<open>page.goto\<close> is called, and when \<open>timer.remaining\<close> is read for the readiness wait.
  The code reads the clock at the first and the last of them.
\<close>

record host =
  tmpdir :: string
  cwd :: string
  now_at_createTimer :: int
  now_at_goto :: int
  now_at_wait :: int
  mkdtemp_result :: "js_error + string"
  launch_result :: "js_error + unit"
  beforeWrite_result :: "js_error + unit"
  writeFile_result :: "js_error + unit"

text \<open>The browser and its page.\<close>

record browser =
  newPage_result :: "js_error + unit"
  exposeFunction_result :: "js_error + unit"
  goto_result :: "js_error + response option"
  waitForFunction_result :: "js_error + unit"
  page_url_inspect :: string
  page_close_result :: "js_error + unit"
  browser_close_result :: "js_error + unit"

text \<open>
  The loaded document: the events it dispatches, what \<open>isRespec\<close> finds,
  \<open>window.respecVersion\<close>, the readiness race, and the two modules \<open>require\<close> can load.
  A module is either the message of the load error, or the outcome of calling its export
  function.

  The exposed function is an asynchronous binding: a call reaches the controller some
  time after the page made it, and the code never waits for calls that are outstanding.
  \<open>events st\<close> are the events dispatched on the document whose calls are on their way
  to the controller while it awaits \<open>st\<close>.  While the page lives they all arrive.
  \<open>page.close()\<close> destroys the page, and with it the calls that have not arrived: of the
  events of \<open>At_pageClose\<close> only the first \<open>reach_before_close\<close> reach the controller.
  No call arrives once \<open>browser.close()\<close> has been called.
\<close>

record document =
  events :: "stage \<Rightarrow> dom_event list"
  reach_before_close :: nat
  head_has_respec_script :: bool
  respec_ui_present :: bool
  respecVersion :: string
  respecIsReady :: ready_race
  save_html_module :: "string + (js_error + string)"
  exporter_module :: "string + (js_error + string)"

record world =
  lib :: library
  host :: host
  browser :: browser
  doc :: document

section \<open>tools/respecDocWriter.js: the functions\<close>

subsection \<open>createTimer\<close>

record timer =
  timer_start :: int
  timer_duration :: int

text \<open>\<open>createTimer(duration)\<close> reads the clock once; \<open>now\<close> is that reading.\<close>

definition createTimer :: "int \<Rightarrow> int \<Rightarrow> timer" where
  "createTimer now dur = \<lparr>timer_start = now, timer_duration = dur\<rparr>"

text \<open>The getter \<open>remaining\<close>, with the clock reading \<open>now\<close> of its \<open>Date.now()\<close>.\<close>

definition remaining :: "timer \<Rightarrow> int \<Rightarrow> int" where
  "remaining t now = (let spent = now - timer_start t in max 0 (timer_duration t - spent))"

subsection \<open>The bridge for errors and warnings\<close>

text \<open>
  The function exposed to the page as \<open>onRespecErrorOrWarning\<close>; its argument is the
  object \<open>{ type, detail }\<close>.  It runs in the controller and calls one of the caller's
  callbacks, or none.
\<close>

definition onRespecErrorOrWarning :: "string \<times> string \<Rightarrow> effect list" where
  "onRespecErrorOrWarning e =
     (if fst e = ''respecerror'' then [OnError (snd e)]
      else if fst e = ''respecwarn'' then [OnWarning (snd e)]
      else [])"

text \<open>
  The script installed with \<open>evaluateOnNewDocument\<close> registers one listener on the
  document for each of these event names, in this order.
\<close>

definition listened_events :: "string list" where
  "listened_events = [''respecwarn'', ''respecerror'']"

text \<open>
  Dispatching an event on the document runs the listeners registered for its type, in
  the order of registration; each calls the exposed function with its own event name.
\<close>

definition dispatch_event :: "dom_event \<Rightarrow> effect list" where
  "dispatch_event ev =
     concat (map (\<lambda>evName. if ev_type ev = evName
                             then onRespecErrorOrWarning (evName, detail ev) else [])
               listened_events)"

text \<open>The calls of the exposed function reach the controller in the order they were made.\<close>

definition relay :: "dom_event list \<Rightarrow> effect list" where
  "relay evs = concat (map dispatch_event evs)"

text \<open>
  The events whose calls reach the controller during an await: all of them while the
  page lives, a prefix of them while \<open>page.close()\<close> destroys it.
\<close>

definition arrivals :: "document \<Rightarrow> stage \<Rightarrow> dom_event list" where
  "arrivals d st =
     (if st = At_pageClose then take (reach_before_close d) (events d st) else events d st)"

text \<open>
  A call to the page once the bridge is installed: the calls of the exposed function
  that arrive while the call is awaited are relayed before the call settles.
\<close>

definition call_page :: "world \<Rightarrow> stage \<Rightarrow> effect \<Rightarrow> js_error + 'a \<Rightarrow> 'a io" where
  "call_page w st eff result =
     ((case result of Inl e \<Rightarrow> Throw e | Inr v \<Rightarrow> Return v), eff # relay (arrivals (doc w) st))"

text \<open>
  \<open>page.evaluate(f, ...)\<close> runs \<open>f\<close> in the page.  What \<open>f\<close> throws reaches the controller
  as the library reports it (\<open>evaluate_error\<close>).
\<close>

definition page_evaluate :: "world \<Rightarrow> stage \<Rightarrow> string \<Rightarrow> 'a io \<Rightarrow> 'a io" where
  "page_evaluate w st name body =
     (case body of
        (Throw e, t) \<Rightarrow>
          (Throw (evaluate_error (lib w) e), Evaluate name # relay (arrivals (doc w) st) @ t)
      | (c, t) \<Rightarrow> (c, Evaluate name # relay (arrivals (doc w) st) @ t))"

subsection \<open>writeTo\<close>

definition writeTo :: "world \<Rightarrow> string \<Rightarrow> string \<Rightarrow> unit io" where
  "writeTo w outPath data =
     (let newFilePath =
            (if path_isAbsolute (lib w) outPath then outPath
             else path_resolve (lib w) (cwd (host w)) outPath)
      in try_catch
           (call_page w At_writeFile (WriteFile newFilePath data ''utf-8'')
              (writeFile_result (host w)))
           (\<lambda>err. and_then (emit (ConsoleError err)) (\<lambda>_. process_exit 1)))"

subsection \<open>isRespec and checkIfReSpec\<close>

text \<open>
  \<open>isRespec\<close> runs in the page: true at once when the head holds a ReSpec script;
  otherwise, after the document is complete and 2000 ms have passed, whether the element
  \<open>respec-ui\<close> exists.
\<close>

definition isRespec :: "document \<Rightarrow> bool" where
  "isRespec d = (if head_has_respec_script d then True else respec_ui_present d)"

definition not_respec_text :: string where
  "not_respec_text =
     [CHR 0xF0, CHR 0x9F, CHR 0x95, CHR 0xB5, CHR 0xEF, CHR 0xB8, CHR 0x8F, CHR 0xE2, CHR 0x80,
      CHR 0x8D, CHR 0xE2, CHR 0x99, CHR 0x80, CHR 0xEF, CHR 0xB8, CHR 0x8F]
     @ ''  That doesn't seem to be a ReSpec document. Please check manually:''"

text \<open>
  The message names \<open>page.url\<close> without calling it, so \<open>colors.debug\<close> receives the method
  itself; \<open>page_url_inspect\<close> is the text it is rendered as.
\<close>

definition checkIfReSpec :: "world \<Rightarrow> bool io" where
  "checkIfReSpec w =
     and_then (page_evaluate w At_isRespec ''isRespec'' (ret (isRespec (doc w))))
       (\<lambda>isRespecDoc.
          if \<not> isRespecDoc then
            throw (Error (colors_warn (lib w) not_respec_text @ '' ''
                          @ colors_debug (lib w) (page_url_inspect (browser w))))
          else ret isRespecDoc)"

subsection \<open>evaluateHTML\<close>

text \<open>
  The inner function \<open>timeout(promise, ms)\<close>: the promise's outcome if it settles before
  the timer, otherwise a rejection with the message string.
\<close>

definition timeout_msg :: "int \<Rightarrow> string" where
  "timeout_msg ms = ''Timeout: document.respecIsReady didn't resolve in '' @ show_int ms @ ''ms.''"

definition timeout_race :: "ready_race \<Rightarrow> int \<Rightarrow> unit io" where
  "timeout_race promise ms =
     (case promise of
        Ready_resolved \<Rightarrow> ret ()
      | Ready_rejected e \<Rightarrow> throw e
      | Timer_first \<Rightarrow> throw (Thrown (timeout_msg ms)))"

definition old_version_warning :: "string \<Rightarrow> string" where
  "old_version_warning ver =
     [CHR 0xF0, CHR 0x9F, CHR 0x91, CHR 0xB4, CHR 0xF0, CHR 0x9F, CHR 0x8F, CHR 0xBD]
     @ ''  Ye Olde ReSpec version detected! Please update to 20.10.0 or above. ''
     @ ''Your version: '' @ ver @ ''.''"

text \<open>
  \<open>require([name], resolve, err => reject(new Error(err.message)))\<close>, followed by the call
  of the function the module exports.
\<close>

definition require_and_call :: "string \<Rightarrow> string + (js_error + string) \<Rightarrow> string io" where
  "require_and_call name module =
     and_then (emit (Require name))
       (\<lambda>_. case module of
               Inl message \<Rightarrow> throw (Error message)
             | Inr (Inl e) \<Rightarrow> throw e
             | Inr (Inr v) \<Rightarrow> ret v)"

text \<open>
  \<open>evaluateHTML(version, timer)\<close> runs in the page; \<open>timer_remaining\<close> is the value of
  \<open>timer.remaining\<close> it reads.
\<close>

definition evaluateHTML :: "document \<Rightarrow> js_number list \<Rightarrow> int \<Rightarrow> string io" where
  "evaluateHTML d version timer_remaining =
     and_then (timeout_race (respecIsReady d) timer_remaining)
       (\<lambda>_. if is_old_version version then
               and_then (emit (ConsoleWarn (old_version_warning (respecVersion d))))
                 (\<lambda>_. require_and_call ''ui/save-html'' (save_html_module d))
             else
               and_then (require_and_call ''core/exporter'' (exporter_module d))
                 (\<lambda>dataURL.
                    let encodedString = replace_data_prefix dataURL
                    in (case decodeURIComponent encodedString of
                          Inl e \<Rightarrow> throw e
                        | Inr html \<Rightarrow> ret html)))"

subsection \<open>generateHTML\<close>

text \<open>In a condition a thrown value counts as true unless it is the empty string.\<close>

definition truthy :: "js_error \<Rightarrow> bool" where
  "truthy err = (case err of Thrown s \<Rightarrow> s \<noteq> [] | _ \<Rightarrow> True)"

definition generation_error_msg :: "library \<Rightarrow> url \<Rightarrow> js_number list \<Rightarrow> js_error \<Rightarrow> string" where
  "generation_error_msg l u version err =
     [CHR 0x0A, CHR 0xF0, CHR 0x9F, CHR 0x98, CHR 0xAD]
     @ ''  Sorry, there was an error generating the HTML. Please report this issue!'' @ [CHR 0x0A]
     @ colors_debug l
         (''Specification: '' @ href u @ [CHR 0x0A]
          @ ''ReSpec version: '' @ join_dot (map show_number version) @ [CHR 0x0A]
          @ ''File a bug: https://github.com/w3c/respec/'' @ [CHR 0x0A]
          @ (if truthy err then ''Error: '' @ err_stack l err @ [CHR 0x0A] else []))"

text \<open>
  The array \<open>getVersion\<close> returns and the array \<open>evaluateHTML\<close> receives both cross
  \<open>page.evaluate\<close> as JSON (\<open>as_json\<close>).
\<close>

definition generateHTML :: "world \<Rightarrow> url \<Rightarrow> timer \<Rightarrow> string io" where
  "generateHTML w u tm =
     and_then (call_page w At_waitForFunction WaitForFunction (waitForFunction_result (browser w)))
       (\<lambda>_. and_then (page_evaluate w At_getVersion ''getVersion''
                        (ret (map as_json (getVersion (respecVersion (doc w))))))
       (\<lambda>version.
          try_catch
            (page_evaluate w At_evaluateHTML ''evaluateHTML''
               (evaluateHTML (doc w) (map as_json version) (remaining tm (now_at_wait (host w)))))
            (\<lambda>err. throw (Error (generation_error_msg (lib w) u version err)))))"

subsection \<open>fetchAndWrite\<close>

definition http_error_msg :: "library \<Rightarrow> int \<Rightarrow> url \<Rightarrow> string" where
  "http_error_msg l st u =
     (let warn = colors_warn l ([CHR 0xF0, CHR 0x9F, CHR 0x93, CHR 0xA1]
                                @ '' HTTP Error '' @ show_int st @ '':'');
          debugURL = origin u @ pathname u
      in warn @ '' '' @ colors_debug l debugURL)"

text \<open>
  The check after \<open>page.goto\<close>.  \<open>goto\<close> may resolve with \<open>null\<close>, on which \<open>response.ok()\<close>
  is a \<open>TypeError\<close>.  A status is true in a condition when it is not zero.
\<close>

definition check_response :: "library \<Rightarrow> url \<Rightarrow> response option \<Rightarrow> unit io" where
  "check_response l u resp =
     (case resp of
        None \<Rightarrow> throw (TypeError ''Cannot read properties of null (reading 'ok')'')
      | Some r \<Rightarrow>
          if \<not> ok r \<and> status r \<noteq> 0 then throw (Error (http_error_msg l (status r) u))
          else ret ())"

text \<open>The \<open>switch (out)\<close>: \<open>null\<close> is \<open>None\<close>.\<close>

definition deliver :: "world \<Rightarrow> string option \<Rightarrow> string \<Rightarrow> unit io" where
  "deliver w out html =
     (case out of
        None \<Rightarrow> emit (StdoutWrite html)
      | Some p \<Rightarrow> if p = [] then ret () else writeTo w p html)"

text \<open>
  The body of the \<open>try\<close> statement.  The promise of \<open>page.evaluateOnNewDocument\<close> is not
  awaited by the code; the call is an effect, and its promise is taken to resolve.
\<close>

definition try_block :: "world \<Rightarrow> string \<Rightarrow> string option \<Rightarrow> int \<Rightarrow> timer \<Rightarrow> string io" where
  "try_block w src out tmo tm =
     and_then (call NewPage (newPage_result (browser w)))
       (\<lambda>_. and_then (call (ExposeFunction ''onRespecErrorOrWarning'')
                        (exposeFunction_result (browser w)))
       (\<lambda>_. and_then (emit EvaluateOnNewDocument)
       (\<lambda>_. and_then (case new_URL (lib w) src of
                        None \<Rightarrow> throw (TypeError ''Invalid URL'')
                      | Some u \<Rightarrow> ret u)
       (\<lambda>u. and_then (call_page w At_goto (Goto (href u) tmo) (goto_result (browser w)))
       (\<lambda>resp. and_then (check_response (lib w) u resp)
       (\<lambda>_. and_then (checkIfReSpec w)
       (\<lambda>_. and_then (generateHTML w u tm)
       (\<lambda>html. and_then (call_page w At_beforeWrite BeforeWrite (beforeWrite_result (host w)))
       (\<lambda>_. and_then (deliver w out html)
       (\<lambda>_. and_then (call_page w At_pageClose PageClose (page_close_result (browser w)))
       (\<lambda>_. ret html)))))))))))"

text \<open>A destructuring default: \<open>const { timeout = 300000 } = options\<close>.\<close>

definition or_default :: "'a \<Rightarrow> 'a option \<Rightarrow> 'a" where
  "or_default d x = (case x of None \<Rightarrow> d | Some v \<Rightarrow> v)"

definition fetchAndWrite :: "world \<Rightarrow> string \<Rightarrow> string option \<Rightarrow> options \<Rightarrow> string io" where
  "fetchAndWrite w src out opts =
     (let tmo = or_default 300000 (timeout opts);
          noSandbox = or_default False (disableSandbox opts);
          devtools = or_default False (debug opts);
          tm = createTimer (now_at_createTimer (host w)) tmo
      in and_then (call (Mkdtemp (tmpdir (host w) @ ''/respec2html-'')) (mkdtemp_result (host w)))
           (\<lambda>userDataDir.
              and_then (call (Launch userDataDir
                                (if noSandbox then Some [''--no-sandbox''] else None) devtools)
                          (launch_result (host w)))
                (\<lambda>_. try_finally (try_block w src out tmo tm)
                        (call BrowserClose (browser_close_result (browser w))))))"

section \<open>Observations on a run\<close>

text \<open>A run settles when its promise resolves or rejects.\<close>

definition settles :: "'a completion \<Rightarrow> bool" where
  "settles c = (case c of ProcessExit _ \<Rightarrow> False | _ \<Rightarrow> True)"

text \<open>How often \<open>browser.close()\<close> was called.\<close>

definition closes :: "effect list \<Rightarrow> nat" where
  "closes t = length (filter (\<lambda>eff. eff = BrowserClose) t)"

text \<open>
  The diagnostic events of the spec: the DOM events \<open>respecerror\<close> (kind "error") and
  \<open>respecwarn\<close> (kind "warning"), and the callback invocation each one is due.
\<close>

definition is_diagnostic :: "dom_event \<Rightarrow> bool" where
  "is_diagnostic ev \<longleftrightarrow> ev_type ev = ''respecerror'' \<or> ev_type ev = ''respecwarn''"

definition callback_of :: "dom_event \<Rightarrow> effect" where
  "callback_of ev =
     (if ev_type ev = ''respecerror'' then OnError (detail ev) else OnWarning (detail ev))"

text \<open>Kinds of effects: navigation, output, and what runs in or comes from the page.\<close>

definition is_goto :: "effect \<Rightarrow> bool" where
  "is_goto eff = (case eff of Goto _ _ \<Rightarrow> True | _ \<Rightarrow> False)"

definition is_output :: "effect \<Rightarrow> bool" where
  "is_output eff = (case eff of StdoutWrite _ \<Rightarrow> True | WriteFile _ _ _ \<Rightarrow> True | _ \<Rightarrow> False)"

definition page_effect :: "effect \<Rightarrow> bool" where
  "page_effect eff =
     (case eff of
        WaitForFunction \<Rightarrow> True | Evaluate _ \<Rightarrow> True | OnError _ \<Rightarrow> True | OnWarning _ \<Rightarrow> True
      | ConsoleWarn _ \<Rightarrow> True | Require _ \<Rightarrow> True | _ \<Rightarrow> False)"

text \<open>The effects that can follow navigation inside the \<open>try\<close> block.\<close>

definition later_effect :: "effect \<Rightarrow> bool" where
  "later_effect eff =
     (case eff of
        Mkdtemp _ \<Rightarrow> False | Launch _ _ _ \<Rightarrow> False | NewPage \<Rightarrow> False | ExposeFunction _ \<Rightarrow> False
      | EvaluateOnNewDocument \<Rightarrow> False | Goto _ _ \<Rightarrow> False | BrowserClose \<Rightarrow> False | _ \<Rightarrow> True)"

text \<open>
  The file system after the writes of a run whose writes succeeded: \<open>writeFile\<close> creates
  the file or replaces its content.
\<close>

definition written_files :: "effect list \<Rightarrow> (string \<rightharpoonup> string) \<Rightarrow> (string \<rightharpoonup> string)" where
  "written_files t fs =
     foldl (\<lambda>files eff. case eff of WriteFile p data _ \<Rightarrow> files(p \<mapsto> data) | _ \<Rightarrow> files) fs t"

text \<open>What a run wrote to standard output.\<close>

definition stdout_writes :: "effect list \<Rightarrow> string list" where
  "stdout_writes t = concat (map (\<lambda>eff. case eff of StdoutWrite s \<Rightarrow> [s] | _ \<Rightarrow> []) t)"

text \<open>The invocations of the caller's callbacks in a run.\<close>

definition is_callback :: "effect \<Rightarrow> bool" where
  "is_callback eff = (case eff of OnError _ \<Rightarrow> True | OnWarning _ \<Rightarrow> True | _ \<Rightarrow> False)"

text \<open>
  The awaits of a run that resolves, from navigation to \<open>page.close()\<close>, in order; the
  file is written only for a destination that is a path.
\<close>

definition awaits_of :: "string option \<Rightarrow> stage list" where
  "awaits_of out =
     [At_goto, At_isRespec, At_waitForFunction, At_getVersion, At_evaluateHTML, At_beforeWrite]
     @ (case out of None \<Rightarrow> [] | Some p \<Rightarrow> if p = [] then [] else [At_writeFile])
     @ [At_pageClose]"

text \<open>
  The await an effect opens: the call during which calls of the exposed function can
  arrive.
\<close>

definition stage_of :: "effect \<Rightarrow> stage option" where
  "stage_of eff =
     (case eff of
        Goto _ _ \<Rightarrow> Some At_goto
      | WaitForFunction \<Rightarrow> Some At_waitForFunction
      | Evaluate name \<Rightarrow>
          (if name = ''isRespec'' then Some At_isRespec
           else if name = ''getVersion'' then Some At_getVersion
           else if name = ''evaluateHTML'' then Some At_evaluateHTML
           else None)
      | BeforeWrite \<Rightarrow> Some At_beforeWrite
      | WriteFile _ _ _ \<Rightarrow> Some At_writeFile
      | PageClose \<Rightarrow> Some At_pageClose
      | _ \<Rightarrow> None)"

text \<open>The awaits a run went through, read off its trace.\<close>

definition awaited :: "effect list \<Rightarrow> stage list" where
  "awaited t = concat (map (\<lambda>eff. case stage_of eff of Some st \<Rightarrow> [st] | None \<Rightarrow> []) t)"

text \<open>
  A trace is bridged when its callback invocations are exactly the ones due to the
  events that arrived during its awaits, in that order.
\<close>

definition bridged :: "world \<Rightarrow> effect list \<Rightarrow> bool" where
  "bridged w t \<longleftrightarrow>
     filter is_callback t = relay (concat (map (arrivals (doc w)) (awaited t)))"

text \<open>
  The directories on disk after a run.  \<open>mkdtemp\<close> creates the directory it returns.  No
  other call of the code touches a directory: the file imports only \<open>mkdtemp\<close> and
  \<open>writeFile\<close> from \<open>fs\<close>, and \<open>browser.close()\<close> of Puppeteer deletes a profile directory
  only when Puppeteer made it itself, not one it was given as \<open>userDataDir\<close>.
\<close>

definition disk_step :: "world \<Rightarrow> string set \<Rightarrow> effect \<Rightarrow> string set" where
  "disk_step w dirs eff =
     (case eff of
        Mkdtemp _ \<Rightarrow> (case mkdtemp_result (host w) of Inr dir \<Rightarrow> insert dir dirs | Inl _ \<Rightarrow> dirs)
      | _ \<Rightarrow> dirs)"

definition directories_after :: "world \<Rightarrow> effect list \<Rightarrow> string set \<Rightarrow> string set" where
  "directories_after w t dirs = foldl (disk_step w) dirs t"

section \<open>Sample environments\<close>

text \<open>
  A concrete environment for evaluating the functions.  \<open>colors\<close> wraps a text in the
  ANSI codes of the theme (yellow for \<open>warn\<close>, cyan for \<open>debug\<close>).  \<open>simple_URL\<close> reads
  the parts of a URL of the form \<open>scheme://authority/path?query#fragment\<close> that needs no
  normalisation, as \<open>new URL\<close> does for such a string.
\<close>

definition ansi :: "string \<Rightarrow> string \<Rightarrow> string" where
  "ansi code s = [CHR 0x1B] @ ''['' @ code @ ''m'' @ s @ [CHR 0x1B] @ ''[39m''"

definition simple_URL :: "string \<Rightarrow> url option" where
  "simple_URL s =
     (let scheme = takeWhile (\<lambda>c. c \<noteq> CHR '':'') s;
          after_scheme = dropWhile (\<lambda>c. c \<noteq> CHR '':'') s;
          after_slashes = drop 3 after_scheme;
          authority = takeWhile (\<lambda>c. c \<notin> set ''/?#'') after_slashes;
          from_path = dropWhile (\<lambda>c. c \<notin> set ''/?#'') after_slashes;
          path = takeWhile (\<lambda>c. c \<notin> set ''?#'') from_path;
          from_query = dropWhile (\<lambda>c. c \<notin> set ''?#'') from_path;
          query = takeWhile (\<lambda>c. c \<noteq> CHR ''#'') from_query;
          fragment = dropWhile (\<lambda>c. c \<noteq> CHR ''#'') from_query;
          path' = (if path = [] then ''/'' else path)
      in if scheme = [] \<or> \<not> prefix ''://'' after_scheme \<or> authority = [] then None
         else Some \<lparr>href = scheme @ ''://'' @ authority @ path' @ query @ fragment,
                     origin = scheme @ ''://'' @ authority,
                     pathname = path',
                     search = (if query = ''?'' then [] else query),
                     hash = (if fragment = ''#'' then [] else fragment)\<rparr>)"

definition sample_library :: library where
  "sample_library =
     \<lparr>new_URL = simple_URL,
      colors_warn = ansi ''33'',
      colors_debug = ansi ''36'',
      path_isAbsolute = (\<lambda>p. prefix ''/'' p),
      path_resolve = (\<lambda>dir p. dir @ ''/'' @ p),
      err_stack = (\<lambda>e. case e of Error m \<Rightarrow> ''Error: '' @ m
                              | TypeError m \<Rightarrow> ''TypeError: '' @ m
                              | URIError m \<Rightarrow> ''URIError: '' @ m
                              | Thrown s \<Rightarrow> ''undefined''),
      evaluate_error = (\<lambda>e. case e of Thrown s \<Rightarrow> Error (''Evaluation failed: '' @ s)
                                   | Error m \<Rightarrow> Error (''Evaluation failed: Error: '' @ m)
                                   | TypeError m \<Rightarrow> Error (''Evaluation failed: TypeError: '' @ m)
                                   | URIError m \<Rightarrow> Error (''Evaluation failed: URIError: '' @ m))\<rparr>"

definition sample_host :: host where
  "sample_host =
     \<lparr>tmpdir = ''/tmp'',
      cwd = ''/home/editor'',
      now_at_createTimer = 1000,
      now_at_goto = 1500,
      now_at_wait = 6000,
      mkdtemp_result = Inr ''/tmp/respec2html-Ab12Cd'',
      launch_result = Inr (),
      beforeWrite_result = Inr (),
      writeFile_result = Inr ()\<rparr>"

definition sample_browser :: browser where
  "sample_browser =
     \<lparr>newPage_result = Inr (),
      exposeFunction_result = Inr (),
      goto_result = Inr (Some \<lparr>ok = True, status = 200\<rparr>),
      waitForFunction_result = Inr (),
      page_url_inspect = ''[Function: url]'',
      page_close_result = Inr (),
      browser_close_result = Inr ()\<rparr>"

definition sample_markup :: string where
  "sample_markup = ''<p>caf'' @ [CHR 0xC3, CHR 0xA9] @ '' 100%</p>''"

definition sample_events :: "dom_event list" where
  "sample_events =
     [\<lparr>ev_type = ''respecwarn'', detail = ''w1''\<rparr>,
      \<lparr>ev_type = ''respecerror'', detail = ''e1''\<rparr>,
      \<lparr>ev_type = ''click'', detail = ''x''\<rparr>,
      \<lparr>ev_type = ''respecwarn'', detail = ''w2''\<rparr>]"

definition sample_document :: document where
  "sample_document =
     \<lparr>events = (\<lambda>st. if st = At_evaluateHTML then sample_events else []),
      reach_before_close = 0,
      head_has_respec_script = True,
      respec_ui_present = True,
      respecVersion = ''26.0.1'',
      respecIsReady = Ready_resolved,
      save_html_module = Inr (Inr ''<p>legacy</p>''),
      exporter_module = Inr (Inr (rsDocToDataURL ''text/html'' sample_markup))\<rparr>"

definition sample_world :: world where
  "sample_world =
     \<lparr>lib = sample_library, host = sample_host, browser = sample_browser,
      doc = sample_document\<rparr>"

definition sample_src :: string where
  "sample_src = ''https://example.org/spec.html?key=SECRET''"

definition default_options :: options where
  "default_options = \<lparr>timeout = None, disableSandbox = None, debug = None\<rparr>"

text \<open>The same environment with a file system that refuses the write.\<close>

definition write_failure_world :: world where
  "write_failure_world =
     sample_world\<lparr>host := sample_host\<lparr>writeFile_result := Inl (Error ''EACCES: permission denied'')\<rparr>\<rparr>"

text \<open>The same environment with a browser whose \<open>close\<close> rejects.\<close>

definition close_failure_world :: world where
  "close_failure_world =
     sample_world\<lparr>browser := sample_browser\<lparr>browser_close_result := Inl (Error ''Protocol error: Connection closed.'')\<rparr>\<rparr>"

text \<open>The same environment with a server that answers 404.\<close>

definition not_found_world :: world where
  "not_found_world =
     sample_world\<lparr>browser := sample_browser\<lparr>goto_result := Inr (Some \<lparr>ok = False, status = 404\<rparr>)\<rparr>\<rparr>"

definition sample_url :: url where
  "sample_url =
     \<lparr>href = ''https://example.org/spec.html?key=SECRET'',
      origin = ''https://example.org'',
      pathname = ''/spec.html'',
      search = ''?key=SECRET'',
      hash = []\<rparr>"


text \<open>
  The same document, dispatching one more error while \<open>page.close()\<close> is under way; its
  call does not reach the controller before the page is gone.
\<close>

definition late_event :: dom_event where
  "late_event = \<lparr>ev_type = ''respecerror'', detail = ''e9''\<rparr>"

definition late_event_world :: world where
  "late_event_world =
     sample_world\<lparr>doc := sample_document
       \<lparr>events := (\<lambda>st. if st = At_evaluateHTML then sample_events
                            else if st = At_pageClose then [late_event] else []),
        reach_before_close := 0\<rparr>\<rparr>"

section \<open>Properties: decimal rendering\<close>

lemma digit_char_eval:
  "digit_char 0 = CHR ''0''" "digit_char 1 = CHR ''1''" "digit_char 2 = CHR ''2''"
  "digit_char 3 = CHR ''3''" "digit_char 4 = CHR ''4''" "digit_char 5 = CHR ''5''"
  "digit_char 6 = CHR ''6''" "digit_char 7 = CHR ''7''" "digit_char 8 = CHR ''8''"
  "digit_char 9 = CHR ''9''"
  by (simp_all add: digit_char_def char_of_def bit_Suc_0_iff)

section \<open>Properties: core/examples\<close>

lemma process_example_counter:
  "fst (process_example num example) = (if increments example then num + 1 else num)"
  by (simp add: process_example_def increments_def Let_def split: prod.split)

lemma length_run_from: "length (run_from num examples) = length examples"
  by (induction examples arbitrary: num) (simp_all split: prod.split)

lemma run_from_nth:
  "i < length examples \<Longrightarrow>
   run_from num examples ! i =
     snd (process_example (num + counted_upto examples i) (examples ! i))"
proof (induction examples arbitrary: num i)
  case Nil
  then show ?case by simp
next
  case (Cons e es)
  show ?case
  proof (cases i)
    case 0
    then show ?thesis by (simp add: counted_upto_def split: prod.split)
  next
    case (Suc j)
    with Cons.prems have j: "j < length es" by simp
    obtain n' p where pe: "process_example num e = (n', p)" by (cases "process_example num e")
    have n': "n' = (if increments e then num + 1 else num)"
      using process_example_counter [of num e] pe by simp
    have "run_from num (e # es) ! i = run_from n' es ! j"
      using Suc pe by simp
    also have "\<dots> = snd (process_example (n' + counted_upto es j) (es ! j))"
      using Cons.IH [OF j] .
    also have "n' + counted_upto es j = num + counted_upto (e # es) i"
      using Suc n' by (simp add: counted_upto_def)
    finally show ?thesis using Suc by simp
  qed
qed

lemma process_example_increments:
  assumes "increments example"
  shows "bdi_text (shown (snd (process_example num example))) = CHR '' '' # show_nat (num + 1)"
    and "\<exists>r. published (snd (process_example num example)) = Some r \<and> number r = num"
  using assms
  by (auto simp: process_example_def increments_def makeTitle_def Let_def)

text \<open>
  C10.  For every element of the node list that increments the example counter (an aside,
  or a pre that is not inside an aside), the marker shows the number \<open>n\<close>, where \<open>n\<close> is
  the count of incrementing elements up to and including this one, and a report is
  published on the \<open>example\<close> topic whose \<open>number\<close> field is \<open>n - 1\<close>: the value the
  counter had before the increment.
\<close>

theorem report_number_is_marker_number_minus_one:
  assumes "i < length examples" and "increments (examples ! i)"
  defines "n \<equiv> counted_upto examples (Suc i)"
  shows "n > 0
    \<and> bdi_text (shown (run examples ! i)) = CHR '' '' # show_nat n
    \<and> (\<exists>r. published (run examples ! i) = Some r \<and> number r = n - 1)"
proof -
  let ?k = "counted_upto examples i"
  have step: "take (Suc i) examples = take i examples @ [examples ! i]"
    using assms(1) by (simp add: take_Suc_conv_app_nth)
  have n: "n = ?k + 1"
    using assms(2) by (simp add: n_def counted_upto_def step)
  have nth: "run examples ! i = snd (process_example ?k (examples ! i))"
    using run_from_nth [OF assms(1), of 0] by (simp add: run_def)
  show ?thesis
    using process_example_increments [OF assms(2), of ?k] n nth by simp
qed

text \<open>
  The theorem at the third element of the sample document: it is the second element that
  increments the counter, its marker shows 2 and its report carries 1.
\<close>

theorem report_number_is_marker_number_minus_one_witness:
  "2 < length sample_examples \<and> increments (sample_examples ! 2)
   \<and> counted_upto sample_examples 3 = 2
   \<and> bdi_text (shown (run sample_examples ! 2)) = '' 2''
   \<and> (\<exists>r. published (run sample_examples ! 2) = Some r \<and> number r = 1)"
proof -
  have len: "2 < length sample_examples"
    by (simp add: sample_examples_def)
  have inc: "increments (sample_examples ! 2)"
    by (simp add: sample_examples_def increments_def)
  have cnt: "counted_upto sample_examples (Suc 2) = 2"
    by (simp add: counted_upto_def sample_examples_def increments_def)
  show ?thesis
    using report_number_is_marker_number_minus_one [OF len inc] len inc cnt
    by (simp add: show_nat.simps digit_char_eval)
qed

section \<open>Properties: the data URL round trip\<close>




















section \<open>Properties: control flow\<close>

lemma and_then_Return: "and_then (Return v, t) f = (fst (f v), t @ snd (f v))"
  by (simp add: and_then_def split: prod.split)

lemma and_then_Throw: "and_then (Throw e, t) f = (Throw e, t)"
  by (simp add: and_then_def)

lemma and_then_ProcessExit: "and_then (ProcessExit n, t) f = (ProcessExit n, t)"
  by (simp add: and_then_def)

lemmas and_then_simps = and_then_Return and_then_Throw and_then_ProcessExit

lemma try_catch_Throw: "try_catch (Throw e, t) h = (fst (h e), t @ snd (h e))"
  by (simp add: try_catch_def split: prod.split)

lemma try_catch_Return: "try_catch (Return v, t) h = (Return v, t)"
  by (simp add: try_catch_def)

lemma try_catch_ProcessExit: "try_catch (ProcessExit n, t) h = (ProcessExit n, t)"
  by (simp add: try_catch_def)

lemmas try_catch_simps = try_catch_Throw try_catch_Return try_catch_ProcessExit

lemma try_finally_settled:
  "settles c \<Longrightarrow>
   try_finally (c, t) (call BrowserClose r)
     = ((case r of Inl e \<Rightarrow> Throw e | Inr _ \<Rightarrow> c), t @ [BrowserClose])"
  by (cases c; cases r) (simp_all add: try_finally_def call_def settles_def)

lemma try_finally_ProcessExit: "try_finally (ProcessExit n, t) cleanup = (ProcessExit n, t)"
  by (simp add: try_finally_def)

text \<open>What the two listeners and the exposed function do with one event.\<close>

lemma dispatch_event_callback:
  "dispatch_event ev = (if is_diagnostic ev then [callback_of ev] else [])"
  by (auto simp: dispatch_event_def listened_events_def onRespecErrorOrWarning_def
        is_diagnostic_def callback_of_def)

section \<open>Properties: the kinds of effects of each function\<close>

lemma all_and_then:
  assumes "list_all P (snd m)" and "\<And>v. list_all P (snd (f v))"
  shows "list_all P (snd (and_then m f))"
proof (cases m)
  case (Pair c t)
  with assms show ?thesis
    by (cases c) (simp_all add: and_then_simps)
qed

lemma all_try_catch:
  assumes "list_all P (snd m)" and "\<And>e. list_all P (snd (h e))"
  shows "list_all P (snd (try_catch m h))"
proof (cases m)
  case (Pair c t)
  with assms show ?thesis
    by (cases c) (simp_all add: try_catch_simps)
qed

lemma page_relay: "list_all page_effect (relay evs)"
  by (induction evs)
     (simp_all add: relay_def dispatch_event_callback callback_of_def page_effect_def)

lemma page_page_evaluate:
  assumes "list_all page_effect (snd body)"
  shows "list_all page_effect (snd (page_evaluate w st name body))"
proof (cases body)
  case (Pair c t)
  with assms show ?thesis
    by (cases c) (simp_all add: page_evaluate_def page_relay page_effect_def)
qed

lemma page_basic:
  "list_all P (snd (ret v))" "list_all P (snd (throw e))" "list_all P (snd (process_exit n))"
  "P eff \<Longrightarrow> list_all P (snd (emit eff))"
  by (simp_all add: ret_def throw_def process_exit_def emit_def)

lemma page_require_and_call: "list_all page_effect (snd (require_and_call name m))"
  unfolding require_and_call_def
  by (intro all_and_then) (simp_all add: page_basic page_effect_def split: sum.split)

lemma page_evaluateHTML: "list_all page_effect (snd (evaluateHTML d version ms))"
  unfolding evaluateHTML_def
  by (intro all_and_then)
     (simp_all add: page_basic page_require_and_call all_and_then timeout_race_def page_effect_def
        Let_def split: ready_race.split sum.split)

lemma page_call_page:
  "page_effect eff \<Longrightarrow> list_all page_effect (snd (call_page w st eff r))"
  by (simp add: call_page_def page_relay)

lemma page_generateHTML: "list_all page_effect (snd (generateHTML w u tm))"
  unfolding generateHTML_def
  by (intro all_and_then all_try_catch page_page_evaluate page_call_page)
     (simp_all add: page_basic page_evaluateHTML page_effect_def)

lemma page_checkIfReSpec: "list_all page_effect (snd (checkIfReSpec w))"
  unfolding checkIfReSpec_def
  by (intro all_and_then page_page_evaluate) (simp_all add: page_basic)

lemma later_of_page: "list_all page_effect t \<Longrightarrow> list_all later_effect t"
  by (induction t) (auto simp: page_effect_def later_effect_def split: effect.splits)

lemma later_call_page:
  "later_effect eff \<Longrightarrow> list_all later_effect (snd (call_page w st eff r))"
  by (simp add: call_page_def later_of_page [OF page_relay])

lemma later_writeTo: "list_all later_effect (snd (writeTo w p data))"
  unfolding writeTo_def Let_def
  by (intro all_and_then all_try_catch later_call_page)
     (simp_all add: page_basic later_effect_def)

lemma later_deliver: "list_all later_effect (snd (deliver w out html))"
  by (simp add: deliver_def page_basic later_writeTo later_effect_def split: option.split)

lemma later_check_response: "list_all later_effect (snd (check_response l u resp))"
  by (simp add: check_response_def page_basic split: option.split)

text \<open>Everything the \<open>try\<close> block does after \<open>page.goto\<close> has resolved.\<close>

lemma later_after_navigation:
  "list_all later_effect
     (snd (and_then (check_response (lib w) u resp)
       (\<lambda>_. and_then (checkIfReSpec w)
       (\<lambda>_. and_then (generateHTML w u tm)
       (\<lambda>html. and_then (call_page w At_beforeWrite BeforeWrite (beforeWrite_result (host w)))
       (\<lambda>_. and_then (deliver w out html)
       (\<lambda>_. and_then (call_page w At_pageClose PageClose (page_close_result (browser w)))
       (\<lambda>_. ret html))))))))"
  by (intro all_and_then later_call_page)
     (simp_all add: later_check_response later_of_page [OF page_checkIfReSpec]
        later_of_page [OF page_generateHTML] later_deliver page_basic later_effect_def)

lemma no_goto_later: "list_all later_effect t \<Longrightarrow> filter is_goto t = []"
  by (induction t) (auto simp: later_effect_def is_goto_def split: effect.splits)

lemma snd_and_then:
  "snd (and_then m f) = snd m @ (case fst m of Return v \<Rightarrow> snd (f v) | _ \<Rightarrow> [])"
  by (cases m; cases "fst m") (auto simp: and_then_simps)

section \<open>Properties: runs that resolve\<close>

text \<open>What a run that resolves must have gone through.\<close>

lemma and_then_Return_iff:
  "and_then m f = (Return x, t) \<longleftrightarrow>
     (\<exists>v t1 t2. m = (Return v, t1) \<and> f v = (Return x, t2) \<and> t = t1 @ t2)"
  by (cases m; cases "fst m"; cases "f (case fst m of Return v \<Rightarrow> v)")
     (auto simp: and_then_simps)

lemma try_finally_Return_iff:
  "try_finally body (call BrowserClose r) = (Return x, t) \<longleftrightarrow>
     (\<exists>t1. body = (Return x, t1) \<and> r = Inr () \<and> t = t1 @ [BrowserClose])"
  by (cases body; cases "fst body"; cases r) (auto simp: try_finally_def call_def)

lemma call_Return_iff: "call eff r = (Return v, t) \<longleftrightarrow> r = Inr v \<and> t = [eff]"
  by (cases r) (auto simp: call_def)

lemma call_page_Return_iff:
  "call_page w st eff r = (Return v, t) \<longleftrightarrow> r = Inr v \<and> t = eff # relay (arrivals (doc w) st)"
  by (cases r) (auto simp: call_page_def)

lemma fetchAndWrite_ReturnE:
  assumes "fetchAndWrite w src out opts = (Return html, t)"
  obtains dir tb where "mkdtemp_result (host w) = Inr dir" and "launch_result (host w) = Inr ()"
    and "try_block w src out (or_default 300000 (timeout opts))
           (createTimer (now_at_createTimer (host w)) (or_default 300000 (timeout opts)))
         = (Return html, tb)"
    and "t = Mkdtemp (tmpdir (host w) @ ''/respec2html-'')
             # Launch dir (if or_default False (disableSandbox opts) then Some [''--no-sandbox''] else None)
                 (or_default False (debug opts))
             # tb @ [BrowserClose]"
  using assms
  by (auto simp: fetchAndWrite_def Let_def and_then_Return_iff call_Return_iff
        try_finally_Return_iff)

lemma try_block_ReturnE:
  assumes "try_block w src out tmo tm = (Return html, tb)"
  obtains u tc tg td where "new_URL (lib w) src = Some u"
    and "snd (checkIfReSpec w) = tc"
    and "generateHTML w u tm = (Return html, tg)"
    and "deliver w out html = (Return (), td)"
    and "tb = [NewPage, ExposeFunction ''onRespecErrorOrWarning'', EvaluateOnNewDocument,
               Goto (href u) tmo] @ relay (arrivals (doc w) At_goto) @ tc @ tg
              @ BeforeWrite # relay (arrivals (doc w) At_beforeWrite) @ td
              @ PageClose # relay (arrivals (doc w) At_pageClose)"
  using assms
  by (auto simp: try_block_def and_then_Return_iff call_Return_iff call_page_Return_iff
        emit_def ret_def throw_def check_response_def
        split: option.splits if_splits)

section \<open>Properties: release of the session\<close>

text \<open>No step of the \<open>try\<close> block calls \<open>browser.close()\<close>.\<close>

lemma no_close_and_then:
  assumes "BrowserClose \<notin> set (snd m)" and "\<And>v. BrowserClose \<notin> set (snd (f v))"
  shows "BrowserClose \<notin> set (snd (and_then m f))"
proof (cases m)
  case (Pair c t)
  with assms show ?thesis
    by (cases c) (simp_all add: and_then_simps)
qed

lemma no_close_try_catch:
  assumes "BrowserClose \<notin> set (snd m)" and "\<And>e. BrowserClose \<notin> set (snd (h e))"
  shows "BrowserClose \<notin> set (snd (try_catch m h))"
proof (cases m)
  case (Pair c t)
  with assms show ?thesis
    by (cases c) (simp_all add: try_catch_simps)
qed

lemma no_close_relay: "BrowserClose \<notin> set (relay evs)"
  by (auto simp: relay_def dispatch_event_def onRespecErrorOrWarning_def listened_events_def
           split: if_splits)

lemma no_close_basic:
  "BrowserClose \<notin> set (snd (ret v))"
  "BrowserClose \<notin> set (snd (throw e))"
  "BrowserClose \<notin> set (snd (process_exit n))"
  "eff \<noteq> BrowserClose \<Longrightarrow> BrowserClose \<notin> set (snd (emit eff))"
  "eff \<noteq> BrowserClose \<Longrightarrow> BrowserClose \<notin> set (snd (call eff r))"
  "eff \<noteq> BrowserClose \<Longrightarrow> BrowserClose \<notin> set (snd (call_page w st eff r))"
  by (simp_all add: ret_def throw_def process_exit_def emit_def call_def call_page_def
        no_close_relay)

lemma no_close_page_evaluate:
  assumes "BrowserClose \<notin> set (snd body)"
  shows "BrowserClose \<notin> set (snd (page_evaluate w st name body))"
proof (cases body)
  case (Pair c t)
  with assms show ?thesis
    by (cases c) (simp_all add: page_evaluate_def no_close_relay)
qed

lemma no_close_require_and_call: "BrowserClose \<notin> set (snd (require_and_call name m))"
  unfolding require_and_call_def
  by (intro no_close_and_then) (simp_all add: no_close_basic split: sum.split)

lemma no_close_evaluateHTML: "BrowserClose \<notin> set (snd (evaluateHTML d version ms))"
  unfolding evaluateHTML_def
  by (intro no_close_and_then)
     (simp_all add: no_close_basic no_close_require_and_call no_close_and_then timeout_race_def
        Let_def split: ready_race.split sum.split)

lemma no_close_generateHTML: "BrowserClose \<notin> set (snd (generateHTML w u tm))"
  unfolding generateHTML_def
  by (intro no_close_and_then no_close_try_catch no_close_page_evaluate)
     (simp_all add: no_close_basic no_close_evaluateHTML)

lemma no_close_checkIfReSpec: "BrowserClose \<notin> set (snd (checkIfReSpec w))"
  unfolding checkIfReSpec_def
  by (intro no_close_and_then no_close_page_evaluate) (simp_all add: no_close_basic)

lemma no_close_writeTo: "BrowserClose \<notin> set (snd (writeTo w p data))"
  unfolding writeTo_def Let_def
  by (intro no_close_and_then no_close_try_catch) (simp_all add: no_close_basic)

lemma no_close_deliver: "BrowserClose \<notin> set (snd (deliver w out html))"
  by (simp add: deliver_def no_close_basic no_close_writeTo split: option.split)

lemma no_close_check_response: "BrowserClose \<notin> set (snd (check_response l u resp))"
  by (simp add: check_response_def no_close_basic split: option.split)

lemma no_close_try_block: "BrowserClose \<notin> set (snd (try_block w src out tmo tm))"
  unfolding try_block_def
  by (intro no_close_and_then)
     (simp_all add: no_close_basic no_close_check_response no_close_checkIfReSpec
        no_close_generateHTML no_close_deliver split: option.split)

text \<open>
  Once the profile directory exists and the browser is launched, a run is these two
  effects followed by the \<open>try\<close> statement.
\<close>

lemma fetchAndWrite_acquired:
  assumes "mkdtemp_result (host w) = Inr dir" and "launch_result (host w) = Inr ()"
  shows "fetchAndWrite w src out opts =
     (let tmo = or_default 300000 (timeout opts);
          r = try_finally
                (try_block w src out tmo (createTimer (now_at_createTimer (host w)) tmo))
                (call BrowserClose (browser_close_result (browser w)))
      in (fst r,
          Mkdtemp (tmpdir (host w) @ ''/respec2html-'')
          # Launch dir (if or_default False (disableSandbox opts) then Some [''--no-sandbox''] else None)
              (or_default False (debug opts))
          # snd r))"
  using assms by (simp add: fetchAndWrite_def Let_def call_def and_then_simps)

text \<open>
  A directory on disk stays there: no step of a run removes one.  The profile directory
  that \<open>mkdtemp\<close> created is therefore on disk after the run, whatever follows.
\<close>

lemma directories_after_mono: "dirs \<subseteq> directories_after w t dirs"
proof (induction t arbitrary: dirs)
  case Nil show ?case by (simp add: directories_after_def)
next
  case (Cons eff t)
  have "dirs \<subseteq> disk_step w dirs eff"
    by (auto simp: disk_step_def split: effect.splits sum.splits)
  also have "\<dots> \<subseteq> directories_after w t (disk_step w dirs eff)" by (rule Cons.IH)
  finally show ?case by (simp add: directories_after_def)
qed

lemma directory_created_remains:
  assumes "mkdtemp_result (host w) = Inr dir"
  shows "dir \<in> directories_after w (Mkdtemp p # t) dirs"
proof -
  have "dir \<in> disk_step w dirs (Mkdtemp p)" using assms by (simp add: disk_step_def)
  then show ?thesis
    using directories_after_mono [of "disk_step w dirs (Mkdtemp p)" w t]
    by (auto simp: directories_after_def)
qed

text \<open>
  C2, as amended.  When the session is acquired (\<open>mkdtemp\<close> and \<open>puppeteer.launch\<close>
  succeed) and the call settles, by resolving or by rejecting with whatever error,
  \<open>browser.close()\<close> is called exactly once, as the last effect of the run.  The
  profile directory is not part of that release: the directory \<open>mkdtemp\<close> created is
  still on disk after the run.
\<close>

theorem session_released_once_directory_kept:
  assumes "mkdtemp_result (host w) = Inr dir" and "launch_result (host w) = Inr ()"
    and "settles (fst (fetchAndWrite w src out opts))"
  shows "closes (snd (fetchAndWrite w src out opts)) = 1
     \<and> last (snd (fetchAndWrite w src out opts)) = BrowserClose
     \<and> dir \<in> directories_after w (snd (fetchAndWrite w src out opts)) dirs"
proof -
  let ?tmo = "or_default 300000 (timeout opts)"
  let ?body = "try_block w src out ?tmo (createTimer (now_at_createTimer (host w)) ?tmo)"
  let ?cleanup = "call BrowserClose (browser_close_result (browser w))"
  obtain c t where body: "?body = (c, t)" by (cases ?body)
  have none: "BrowserClose \<notin> set t"
    using no_close_try_block [of w src out ?tmo "createTimer (now_at_createTimer (host w)) ?tmo"] body
    by simp
  have run: "fetchAndWrite w src out opts
      = (fst (try_finally (c, t) ?cleanup),
         Mkdtemp (tmpdir (host w) @ ''/respec2html-'')
         # Launch dir (if or_default False (disableSandbox opts) then Some [''--no-sandbox''] else None)
             (or_default False (debug opts))
         # snd (try_finally (c, t) ?cleanup))"
    using fetchAndWrite_acquired [OF assms(1,2), of src out opts] body by (simp add: Let_def)
  have kept: "dir \<in> directories_after w (snd (fetchAndWrite w src out opts)) dirs"
    using run directory_created_remains [OF assms(1)] by simp
  have "settles c"
  proof (cases c)
    case (ProcessExit n)
    with run assms(3) show ?thesis by (simp add: try_finally_ProcessExit)
  qed (simp_all add: settles_def)
  then have "snd (try_finally (c, t) ?cleanup) = t @ [BrowserClose]"
    by (simp add: try_finally_settled)
  moreover have "filter (\<lambda>eff. eff = BrowserClose) t = []"
    using none by (auto simp: filter_empty_conv)
  ultimately show ?thesis
    using run kept by (simp add: closes_def)
qed

text \<open>
  The claim as stated fails on both counts.  Where \<open>writeTo\<close> cannot write the file it
  calls \<open>process.exit(1)\<close>: the \<open>finally\<close> block never runs and the browser is not
  closed.  And on the run that resolves and closes the browser, the profile directory is
  left on disk.
\<close>

theorem session_leaks_process_or_directory:
  "mkdtemp_result (host write_failure_world) = Inr ''/tmp/respec2html-Ab12Cd''
   \<and> launch_result (host write_failure_world) = Inr ()
   \<and> fst (fetchAndWrite write_failure_world sample_src (Some ''out.html'') default_options)
       = ProcessExit 1
   \<and> closes (snd (fetchAndWrite write_failure_world sample_src (Some ''out.html'') default_options)) = 0
   \<and> mkdtemp_result (host sample_world) = Inr ''/tmp/respec2html-Ab12Cd''
   \<and> launch_result (host sample_world) = Inr ()
   \<and> fst (fetchAndWrite sample_world sample_src None default_options) = Return sample_markup
   \<and> closes (snd (fetchAndWrite sample_world sample_src None default_options)) = 1
   \<and> ''/tmp/respec2html-Ab12Cd''
       \<in> directories_after sample_world
           (snd (fetchAndWrite sample_world sample_src None default_options)) {}"
  by code_simp

text \<open>The amended statement at the sample run that writes \<open>out.html\<close>.\<close>

theorem session_released_once_directory_kept_witness:
  "mkdtemp_result (host sample_world) = Inr ''/tmp/respec2html-Ab12Cd''
   \<and> launch_result (host sample_world) = Inr ()
   \<and> settles (fst (fetchAndWrite sample_world sample_src (Some ''out.html'') default_options))
   \<and> closes (snd (fetchAndWrite sample_world sample_src (Some ''out.html'') default_options)) = 1
   \<and> last (snd (fetchAndWrite sample_world sample_src (Some ''out.html'') default_options))
       = BrowserClose
   \<and> ''/tmp/respec2html-Ab12Cd''
       \<in> directories_after sample_world
           (snd (fetchAndWrite sample_world sample_src (Some ''out.html'') default_options)) {}"
proof -
  have a: "mkdtemp_result (host sample_world) = Inr ''/tmp/respec2html-Ab12Cd''"
    by (simp add: sample_world_def sample_host_def)
  have b: "launch_result (host sample_world) = Inr ()"
    by (simp add: sample_world_def sample_host_def)
  have c: "settles (fst (fetchAndWrite sample_world sample_src (Some ''out.html'') default_options))"
    by code_simp
  show ?thesis
    using session_released_once_directory_kept [OF a b c, of "{}"] a b c by simp
qed

section \<open>Properties: a failing release\<close>

text \<open>
  C7, as amended.  The \<open>finally\<close> block awaits \<open>browser.close()\<close> without a handler.
  When the session is acquired and the \<open>try\<close> block has returned or thrown, a failure
  of \<open>browser.close()\<close> becomes the outcome of \<open>fetchAndWrite\<close>, in place of the result or
  the error of the \<open>try\<close> block, and no effect follows the call (nothing is logged); the
  outcome of the \<open>try\<close> block stands when \<open>browser.close()\<close> succeeds.
\<close>

theorem release_failure_replaces_outcome:
  assumes "mkdtemp_result (host w) = Inr dir" and "launch_result (host w) = Inr ()"
    and "try_block w src out (or_default 300000 (timeout opts))
           (createTimer (now_at_createTimer (host w)) (or_default 300000 (timeout opts))) = (c, t)"
    and "settles c"
  shows "fetchAndWrite w src out opts =
           ((case browser_close_result (browser w) of Inl e \<Rightarrow> Throw e | Inr _ \<Rightarrow> c),
            Mkdtemp (tmpdir (host w) @ ''/respec2html-'')
            # Launch dir (if or_default False (disableSandbox opts) then Some [''--no-sandbox''] else None)
                (or_default False (debug opts))
            # t @ [BrowserClose])"
  using fetchAndWrite_acquired [OF assms(1,2), of src out opts] assms(3,4)
  by (simp add: Let_def try_finally_settled)

text \<open>
  The claim as stated fails: a run whose \<open>try\<close> block returns the markup, and whose
  \<open>browser.close()\<close> rejects, rejects with the error of \<open>browser.close()\<close>.
\<close>

theorem release_failure_masks_success:
  "mkdtemp_result (host close_failure_world) = Inr ''/tmp/respec2html-Ab12Cd''
   \<and> launch_result (host close_failure_world) = Inr ()
   \<and> fst (try_block close_failure_world sample_src None 300000 (createTimer 1000 300000))
       = Return sample_markup
   \<and> fst (fetchAndWrite close_failure_world sample_src None default_options)
       = Throw (Error ''Protocol error: Connection closed.'')
   \<and> last (snd (fetchAndWrite close_failure_world sample_src None default_options)) = BrowserClose"
  by code_simp

text \<open>The amended statement at that run.\<close>

theorem release_failure_replaces_outcome_witness:
  "mkdtemp_result (host close_failure_world) = Inr ''/tmp/respec2html-Ab12Cd''
   \<and> launch_result (host close_failure_world) = Inr ()
   \<and> settles (fst (try_block close_failure_world sample_src None 300000 (createTimer 1000 300000)))
   \<and> fst (fetchAndWrite close_failure_world sample_src None default_options)
       = Throw (Error ''Protocol error: Connection closed.'')"
proof -
  let ?w = close_failure_world
  have a: "mkdtemp_result (host ?w) = Inr ''/tmp/respec2html-Ab12Cd''" by code_simp
  have b: "launch_result (host ?w) = Inr ()" by code_simp
  have tmo: "or_default 300000 (timeout default_options) = 300000" by code_simp
  have now: "now_at_createTimer (host ?w) = 1000" by code_simp
  obtain c t where body: "try_block ?w sample_src None 300000 (createTimer 1000 300000) = (c, t)"
    by (cases "try_block ?w sample_src None 300000 (createTimer 1000 300000)")
  have "fst (try_block ?w sample_src None 300000 (createTimer 1000 300000)) = Return sample_markup"
    by code_simp
  with body have c: "c = Return sample_markup" by simp
  then have s: "settles c" by (simp add: settles_def)
  have close: "browser_close_result (browser ?w) = Inl (Error ''Protocol error: Connection closed.'')"
    by code_simp
  have "try_block ?w sample_src None (or_default 300000 (timeout default_options))
           (createTimer (now_at_createTimer (host ?w)) (or_default 300000 (timeout default_options))) = (c, t)"
    using body tmo now by simp
  from release_failure_replaces_outcome [OF a b this s] close a b s body
  show ?thesis by simp
qed

section \<open>Properties: the transport error\<close>

text \<open>A response that is not ok and whose status is not zero ends the \<open>try\<close> block.\<close>

lemma try_block_transport_error:
  assumes "newPage_result (browser w) = Inr ()" and "exposeFunction_result (browser w) = Inr ()"
    and "new_URL (lib w) src = Some u"
    and "goto_result (browser w) = Inr (Some r)" and "\<not> ok r" and "status r \<noteq> 0"
  shows "try_block w src out tmo tm =
           (Throw (Error (http_error_msg (lib w) (status r) u)),
            [NewPage, ExposeFunction ''onRespecErrorOrWarning'', EvaluateOnNewDocument,
             Goto (href u) tmo] @ relay (arrivals (doc w) At_goto))"
  using assms
  by (simp add: try_block_def call_def emit_def ret_def throw_def call_page_def check_response_def
        and_then_simps)

text \<open>
  C3.  When the session is acquired, the page is set up, the source parses as a URL and
  navigation answers with a response that is not ok and whose status is not zero, then
  (the release succeeding) \<open>fetchAndWrite\<close> rejects with an \<open>Error\<close> whose message is built
  from the status, the origin and the path of the URL alone: the coloured text
  \<open>HTTP Error <status>:\<close>, a space, and the coloured \<open>origin + pathname\<close>.  The query
  string (\<open>search\<close>), the fragment and the full \<open>href\<close> do not enter the message.
\<close>

theorem transport_error_names_origin_and_path_only:
  assumes "mkdtemp_result (host w) = Inr dir" and "launch_result (host w) = Inr ()"
    and "newPage_result (browser w) = Inr ()" and "exposeFunction_result (browser w) = Inr ()"
    and "new_URL (lib w) src = Some u"
    and "goto_result (browser w) = Inr (Some r)" and "\<not> ok r" and "status r \<noteq> 0"
    and "browser_close_result (browser w) = Inr ()"
  shows "fst (fetchAndWrite w src out opts) =
           Throw (Error (colors_warn (lib w)
                           ([CHR 0xF0, CHR 0x9F, CHR 0x93, CHR 0xA1] @ '' HTTP Error ''
                            @ show_int (status r) @ '':'')
                         @ '' '' @ colors_debug (lib w) (origin u @ pathname u)))"
proof -
  let ?tmo = "or_default 300000 (timeout opts)"
  have "fst (try_finally
               (try_block w src out ?tmo (createTimer (now_at_createTimer (host w)) ?tmo))
               (call BrowserClose (browser_close_result (browser w))))
          = Throw (Error (http_error_msg (lib w) (status r) u))"
    using try_block_transport_error [OF assms(3-8)] assms(9)
    by (simp add: try_finally_settled settles_def)
  then show ?thesis
    using fetchAndWrite_acquired [OF assms(1,2), of src out opts]
    by (simp add: Let_def http_error_msg_def)
qed

text \<open>
  The example of the spec: for \<open>https://example.org/spec.html?key=SECRET\<close> and status
  404 the message contains \<open>404\<close> and \<open>https://example.org/spec.html\<close>, and contains
  neither \<open>SECRET\<close> nor a question mark.
\<close>

theorem transport_error_names_origin_and_path_only_witness:
  "mkdtemp_result (host not_found_world) = Inr ''/tmp/respec2html-Ab12Cd''
   \<and> launch_result (host not_found_world) = Inr ()
   \<and> newPage_result (browser not_found_world) = Inr ()
   \<and> exposeFunction_result (browser not_found_world) = Inr ()
   \<and> new_URL (lib not_found_world) ''https://example.org/spec.html?key=SECRET'' = Some sample_url
   \<and> goto_result (browser not_found_world) = Inr (Some \<lparr>ok = False, status = 404\<rparr>)
   \<and> browser_close_result (browser not_found_world) = Inr ()
   \<and> (\<exists>msg. fst (fetchAndWrite not_found_world ''https://example.org/spec.html?key=SECRET'' None
                    default_options) = Throw (Error msg)
            \<and> sublist ''404'' msg
            \<and> sublist ''https://example.org/spec.html'' msg
            \<and> \<not> sublist ''SECRET'' msg
            \<and> \<not> sublist ''?'' msg)"
proof -
  let ?w = not_found_world
  let ?r = "\<lparr>ok = False, status = 404\<rparr>"
  have a: "mkdtemp_result (host ?w) = Inr ''/tmp/respec2html-Ab12Cd''" by code_simp
  have b: "launch_result (host ?w) = Inr ()" by code_simp
  have c: "newPage_result (browser ?w) = Inr ()" by code_simp
  have d: "exposeFunction_result (browser ?w) = Inr ()" by code_simp
  have e: "new_URL (lib ?w) ''https://example.org/spec.html?key=SECRET'' = Some sample_url"
    by code_simp
  have f: "goto_result (browser ?w) = Inr (Some ?r)" by code_simp
  have g: "\<not> ok ?r" by simp
  have h: "status ?r \<noteq> 0" by simp
  have i: "browser_close_result (browser ?w) = Inr ()" by code_simp
  let ?msg = "colors_warn (lib ?w)
                ([CHR 0xF0, CHR 0x9F, CHR 0x93, CHR 0xA1] @ '' HTTP Error '' @ show_int (status ?r) @ '':'')
              @ '' '' @ colors_debug (lib ?w) (origin sample_url @ pathname sample_url)"
  have run: "fst (fetchAndWrite ?w ''https://example.org/spec.html?key=SECRET'' None default_options)
               = Throw (Error ?msg)"
    using transport_error_names_origin_and_path_only [OF a b c d e f g h i] .
  have "sublist ''404'' ?msg" by code_simp
  moreover have "sublist ''https://example.org/spec.html'' ?msg" by code_simp
  moreover have "\<not> sublist ''SECRET'' ?msg" by code_simp
  moreover have "\<not> sublist ''?'' ?msg" by code_simp
  ultimately show ?thesis
    using a b c d e f i run by blast
qed

section \<open>Properties: the version threshold of the extractor\<close>

text \<open>
  \<open>getVersion\<close> reads the version string \<open>major.minor.patch\<close> of three natural numbers
  as that triple.
\<close>

lemma of_char_digit_char: "d < 10 \<Longrightarrow> (of_char (digit_char d) :: nat) = 48 + d"
  by (simp add: digit_char_def)

lemma show_nat_digits: "c \<in> set (show_nat n) \<Longrightarrow> is_digit c"
proof (induction n rule: show_nat.induct)
  case (1 n)
  show ?case
  proof (cases "n < 10")
    case True
    with "1.prems" show ?thesis
      by (simp add: show_nat.simps [of n] is_digit_def of_char_digit_char)
  next
    case False
    with "1.prems" "1.IH" show ?thesis
      by (auto simp: show_nat.simps [of n] is_digit_def of_char_digit_char)
  qed
qed

lemma show_nat_not_Nil: "show_nat n \<noteq> []"
  by (simp add: show_nat.simps [of n])

lemma digits_value_snoc:
  "digits_value (ds @ [c]) = 10 * digits_value ds + ((of_char c :: nat) - 48)"
  by (simp add: digits_value_def)

lemma digits_value_show_nat: "digits_value (show_nat n) = n"
proof (induction n rule: show_nat.induct)
  case (1 n)
  show ?case
  proof (cases "n < 10")
    case True
    then show ?thesis
      by (simp add: show_nat.simps [of n] digits_value_def of_char_digit_char)
  next
    case False
    with "1.IH" show ?thesis
      by (simp add: show_nat.simps [of n] digits_value_snoc of_char_digit_char)
  qed
qed

lemma digit_facts:
  assumes "is_digit c"
  shows "\<not> is_space c" "c \<noteq> CHR ''+''" "c \<noteq> CHR ''-''" "c \<noteq> CHR ''.''" "c \<noteq> CHR ''D''"
  using assms by (auto simp: is_digit_def is_space_def)

lemma parseInt_digits:
  assumes "ds \<noteq> []" and "\<forall>c \<in> set ds. is_digit c"
  shows "parseInt ds = Num (int (digits_value ds))"
proof -
  obtain c cs where ds: "ds = c # cs" using assms(1) by (cases ds) auto
  with assms(2) have c: "is_digit c" by simp
  have "dropWhile is_space ds = ds"
    using ds digit_facts(1) [OF c] by simp
  moreover have "takeWhile is_digit ds = ds"
    using assms(2) by (simp add: takeWhile_eq_all_conv)
  ultimately show ?thesis
    using ds digit_facts(2,3) [OF c] by (simp add: parseInt_def Let_def)
qed

lemma parseInt_show_nat: "parseInt (show_nat n) = Num (int n)"
  using parseInt_digits [of "show_nat n"] show_nat_not_Nil [of n] show_nat_digits [of _ n]
  by (simp add: digits_value_show_nat)

lemma split_dot_digits:
  assumes "\<forall>c \<in> set ds. is_digit c"
  shows "split_dot ds = [ds]" and "split_dot (ds @ CHR ''.'' # rest) = ds # split_dot rest"
  using assms
  by (induction ds) (auto simp: digit_facts(4))

lemma getVersion_version_string: "getVersion (version_string v) = version_triple v"
proof -
  obtain major minor patch where v: "v = (major, minor, patch)" by (cases v)
  obtain c cs where first: "show_nat major = c # cs"
    using show_nat_not_Nil [of major] by (cases "show_nat major") auto
  then have "is_digit c" using show_nat_digits [of c major] by simp
  then have "c \<noteq> CHR ''D''" by (rule digit_facts(5))
  then have other: "version_string v \<noteq> ''Developer Edition''"
    by (simp add: v version_string_def first)
  have "split_dot (version_string v) = [show_nat major, show_nat minor, show_nat patch]"
    using split_dot_digits [of "show_nat major"] split_dot_digits [of "show_nat minor"]
      split_dot_digits(1) [of "show_nat patch"] show_nat_digits
    by (simp add: v version_string_def)
  then show ?thesis
    using other by (simp add: getVersion_def v version_triple_def parseInt_show_nat)
qed

text \<open>
  On a triple of natural numbers the condition of \<open>evaluateHTML\<close>, which reads only the
  first two components, agrees with the lexicographic order against \<open>(20, 10, 0)\<close>.
\<close>

lemma is_old_version_triple:
  "is_old_version (version_triple (major, minor, patch)) \<longleftrightarrow> below_20_10_0 (major, minor, patch)"
  by (auto simp: is_old_version_def version_triple_def below_20_10_0_def element_def Let_def)

lemma evaluateHTML_ready_effects:
  assumes "respecIsReady d = Ready_resolved"
  shows "snd (evaluateHTML d version ms) =
           (if is_old_version version
            then [ConsoleWarn (old_version_warning (respecVersion d)), Require ''ui/save-html'']
            else [Require ''core/exporter''])"
  using assms
  by (simp add: evaluateHTML_def timeout_race_def ret_def throw_def emit_def and_then_simps
        require_and_call_def Let_def split: sum.split)

text \<open>
  C1.  \<open>getVersion\<close> detects every triple of natural numbers from its version string.
  Once the readiness wait has passed, \<open>evaluateHTML\<close> on a version triple takes the
  legacy path, one \<open>console.warn\<close> advisory followed by loading \<open>ui/save-html\<close>, exactly
  when the triple is below \<open>(20, 10, 0)\<close> in the lexicographic order, and otherwise the
  modern path, loading \<open>core/exporter\<close>, with no advisory.  The boundary \<open>(20, 10, 0)\<close> is
  not below itself.  \<open>getVersion\<close> maps the string \<open>Developer Edition\<close> to the triple
  \<open>(123456789, 0, 0)\<close>, on which \<open>evaluateHTML\<close> takes the modern path.
\<close>

theorem version_gate:
  assumes "respecIsReady d = Ready_resolved"
  shows "getVersion (version_string v) = version_triple v
       \<and> snd (evaluateHTML d (version_triple v) ms) =
           (if below_20_10_0 v
            then [ConsoleWarn (old_version_warning (respecVersion d)), Require ''ui/save-html'']
            else [Require ''core/exporter''])
       \<and> below_20_10_0 (20, 10, 0) = False
       \<and> getVersion ''Developer Edition'' = version_triple (123456789, 0, 0)
       \<and> snd (evaluateHTML d (getVersion ''Developer Edition'') ms) = [Require ''core/exporter'']"
proof -
  obtain major minor patch where v: "v = (major, minor, patch)" by (cases v)
  have gate: "\<And>v. snd (evaluateHTML d (version_triple v) ms) =
           (if below_20_10_0 v
            then [ConsoleWarn (old_version_warning (respecVersion d)), Require ''ui/save-html'']
            else [Require ''core/exporter''])"
  proof -
    fix v :: "nat \<times> nat \<times> nat"
    obtain a b c where "v = (a, b, c)" by (cases v)
    then show "snd (evaluateHTML d (version_triple v) ms) =
           (if below_20_10_0 v
            then [ConsoleWarn (old_version_warning (respecVersion d)), Require ''ui/save-html'']
            else [Require ''core/exporter''])"
      using evaluateHTML_ready_effects [OF assms, of "version_triple v" ms]
      by (simp add: is_old_version_triple)
  qed
  have dev: "getVersion ''Developer Edition'' = version_triple (123456789, 0, 0)"
    by (simp add: getVersion_def version_triple_def)
  have above: "below_20_10_0 (123456789, 0, 0) = False" "below_20_10_0 (20, 10, 0) = False"
    by (simp_all add: below_20_10_0_def)
  show ?thesis
    using gate [of v] gate [of "(123456789, 0, 0)"] dev above getVersion_version_string [of v]
    by simp
qed

text \<open>
  The theorem at the versions \<open>20.9.12\<close> (legacy) and \<open>20.10.0\<close> (modern), as
  \<open>getVersion\<close> reads them from the version strings.
\<close>

theorem version_gate_witness:
  "respecIsReady sample_document = Ready_resolved
   \<and> getVersion ''20.9.12'' = version_triple (20, 9, 12)
   \<and> snd (evaluateHTML sample_document (getVersion ''20.9.12'') 295000)
       = [ConsoleWarn (old_version_warning (respecVersion sample_document)),
          Require ''ui/save-html'']
   \<and> getVersion ''20.10.0'' = version_triple (20, 10, 0)
   \<and> snd (evaluateHTML sample_document (getVersion ''20.10.0'') 295000)
       = [Require ''core/exporter'']"
proof -
  have ready: "respecIsReady sample_document = Ready_resolved"
    by (simp add: sample_document_def)
  have old: "getVersion ''20.9.12'' = version_triple (20, 9, 12)"
    by code_simp
  have new: "getVersion ''20.10.0'' = version_triple (20, 10, 0)"
    by code_simp
  have below: "below_20_10_0 (20, 9, 12)" "\<not> below_20_10_0 (20, 10, 0)"
    by (simp_all add: below_20_10_0_def)
  show ?thesis
    using version_gate [OF ready, of "(20, 9, 12)" 295000]
      version_gate [OF ready, of "(20, 10, 0)" 295000] ready old new below
    by simp
qed

section \<open>Properties: the readiness wait\<close>

lemma remaining_createTimer:
  "remaining (createTimer start dur) now = max 0 (dur - (now - start))"
  by (simp add: remaining_def createTimer_def)





section \<open>Properties: the bridge for errors and warnings\<close>

lemma is_callback_simps:
  "is_callback (OnError x)" "is_callback (OnWarning x)"
  "\<not> is_callback (Mkdtemp a)" "\<not> is_callback (Launch a b c)" "\<not> is_callback NewPage"
  "\<not> is_callback (ExposeFunction a)" "\<not> is_callback EvaluateOnNewDocument"
  "\<not> is_callback (Goto a i)" "\<not> is_callback WaitForFunction" "\<not> is_callback (Evaluate a)"
  "\<not> is_callback (ConsoleWarn a)" "\<not> is_callback (Require a)" "\<not> is_callback BeforeWrite"
  "\<not> is_callback (StdoutWrite a)" "\<not> is_callback (WriteFile a b' c')"
  "\<not> is_callback (ConsoleError e)" "\<not> is_callback PageClose" "\<not> is_callback BrowserClose"
  by (simp_all add: is_callback_def)

lemma relay_append: "relay (xs @ ys) = relay xs @ relay ys"
  by (simp add: relay_def)

lemma callbacks_relay: "filter is_callback (relay evs) = relay evs"
  by (induction evs)
     (simp_all add: relay_def dispatch_event_callback callback_of_def is_callback_simps)

lemma snd_page_evaluate:
  "snd (page_evaluate w st name body) = Evaluate name # relay (arrivals (doc w) st) @ snd body"
  by (cases body; cases "fst body") (auto simp: page_evaluate_def)

lemma snd_call_page: "snd (call_page w st eff r) = eff # relay (arrivals (doc w) st)"
  by (simp add: call_page_def)

text \<open>
  Every function of the controller leaves a bridged trace: callbacks are invoked only
  for calls that arrived during an await, once each and in order.
\<close>

lemma awaited_append: "awaited (t1 @ t2) = awaited t1 @ awaited t2"
  by (simp add: awaited_def)

lemma awaited_Cons:
  "awaited (eff # t) = (case stage_of eff of Some st \<Rightarrow> [st] | None \<Rightarrow> []) @ awaited t"
  by (simp add: awaited_def)

lemma awaited_Nil: "awaited [] = []"
  by (simp add: awaited_def)

lemma stage_of_callback: "is_callback eff \<Longrightarrow> stage_of eff = None"
  by (cases eff) (simp_all add: is_callback_def stage_of_def)

lemma awaited_callbacks: "list_all is_callback t \<Longrightarrow> awaited t = []"
  by (induction t) (simp_all add: awaited_def stage_of_callback)

lemma awaited_relay: "awaited (relay evs) = []"
proof -
  have "list_all is_callback (relay evs)"
    using callbacks_relay [of evs] by (metis Ball_set filter_id_conv)
  then show ?thesis by (rule awaited_callbacks)
qed

lemma bridged_Nil: "bridged w []"
  by (simp add: bridged_def awaited_def relay_def)

lemma bridged_append: "bridged w t1 \<Longrightarrow> bridged w t2 \<Longrightarrow> bridged w (t1 @ t2)"
  by (simp add: bridged_def awaited_append relay_append)

lemma bridged_quiet: "\<not> is_callback eff \<Longrightarrow> stage_of eff = None \<Longrightarrow> bridged w [eff]"
  by (simp add: bridged_def awaited_def relay_def)

lemma bridged_await:
  "\<not> is_callback eff \<Longrightarrow> stage_of eff = Some st \<Longrightarrow>
   bridged w (eff # relay (arrivals (doc w) st))"
  by (simp add: bridged_def awaited_def awaited_relay [unfolded awaited_def] callbacks_relay)

lemma bridged_and_then:
  assumes "bridged w (snd m)" and "\<And>v. bridged w (snd (f v))"
  shows "bridged w (snd (and_then m f))"
proof (cases m)
  case (Pair c t)
  with assms show ?thesis
    by (cases c) (simp_all add: and_then_simps bridged_append)
qed

lemma bridged_try_catch:
  assumes "bridged w (snd m)" and "\<And>e. bridged w (snd (h e))"
  shows "bridged w (snd (try_catch m h))"
proof (cases m)
  case (Pair c t)
  with assms show ?thesis
    by (cases c) (simp_all add: try_catch_simps bridged_append)
qed

lemma bridged_try_finally:
  assumes "bridged w (snd m)" and "bridged w (snd cleanup)"
  shows "bridged w (snd (try_finally m cleanup))"
proof (cases m)
  case (Pair c t)
  obtain c' t' where cl: "cleanup = (c', t')" by (cases cleanup)
  with Pair assms show ?thesis
    by (cases c; cases c') (simp_all add: try_finally_def bridged_append)
qed

lemma bridged_basic:
  "bridged w (snd (ret v))" "bridged w (snd (throw e))" "bridged w (snd (process_exit n))"
  "\<not> is_callback eff \<Longrightarrow> stage_of eff = None \<Longrightarrow> bridged w (snd (emit eff))"
  "\<not> is_callback eff \<Longrightarrow> stage_of eff = None \<Longrightarrow> bridged w (snd (call eff r))"
  by (simp_all add: ret_def throw_def process_exit_def emit_def call_def bridged_Nil bridged_quiet)

lemma bridged_call_page:
  "\<not> is_callback eff \<Longrightarrow> stage_of eff = Some st \<Longrightarrow> bridged w (snd (call_page w st eff r))"
  by (simp add: snd_call_page bridged_await)

lemma bridged_page_evaluate:
  assumes "stage_of (Evaluate name) = Some st" and "bridged w (snd body)"
  shows "bridged w (snd (page_evaluate w st name body))"
proof -
  have "bridged w (Evaluate name # relay (arrivals (doc w) st))"
    using assms(1) by (intro bridged_await) (simp_all add: is_callback_simps)
  then have "bridged w ((Evaluate name # relay (arrivals (doc w) st)) @ snd body)"
    using assms(2) by (rule bridged_append)
  then show ?thesis by (simp add: snd_page_evaluate)
qed

lemma stage_of_simps:
  "stage_of (Evaluate ''isRespec'') = Some At_isRespec"
  "stage_of (Evaluate ''getVersion'') = Some At_getVersion"
  "stage_of (Evaluate ''evaluateHTML'') = Some At_evaluateHTML"
  "stage_of (Goto a i) = Some At_goto" "stage_of WaitForFunction = Some At_waitForFunction"
  "stage_of BeforeWrite = Some At_beforeWrite" "stage_of (WriteFile a b c) = Some At_writeFile"
  "stage_of PageClose = Some At_pageClose"
  "stage_of (Mkdtemp a) = None" "stage_of (Launch a d e) = None" "stage_of NewPage = None"
  "stage_of (ExposeFunction a) = None" "stage_of EvaluateOnNewDocument = None"
  "stage_of (ConsoleWarn a) = None" "stage_of (Require a) = None" "stage_of (StdoutWrite a) = None"
  "stage_of (ConsoleError x) = None" "stage_of BrowserClose = None"
  by (simp_all add: stage_of_def)

lemma bridged_require_and_call: "bridged w (snd (require_and_call name m))"
  unfolding require_and_call_def
  by (intro bridged_and_then)
     (simp_all add: bridged_basic is_callback_simps stage_of_simps split: sum.split)

lemma bridged_evaluateHTML: "bridged w (snd (evaluateHTML d version ms))"
  unfolding evaluateHTML_def
  by (intro bridged_and_then)
     (simp_all add: bridged_basic bridged_require_and_call bridged_and_then timeout_race_def
        is_callback_simps stage_of_simps Let_def split: ready_race.split sum.split)

lemma bridged_generateHTML: "bridged w (snd (generateHTML w u tm))"
  unfolding generateHTML_def
  by (intro bridged_and_then bridged_try_catch bridged_page_evaluate bridged_call_page)
     (simp_all add: bridged_basic bridged_evaluateHTML is_callback_simps stage_of_simps)

lemma bridged_checkIfReSpec: "bridged w (snd (checkIfReSpec w))"
  unfolding checkIfReSpec_def
  by (intro bridged_and_then bridged_page_evaluate)
     (simp_all add: bridged_basic stage_of_simps)

lemma bridged_writeTo: "bridged w (snd (writeTo w p data))"
  unfolding writeTo_def Let_def
  by (intro bridged_and_then bridged_try_catch bridged_call_page)
     (simp_all add: bridged_basic is_callback_simps stage_of_simps)

lemma bridged_deliver: "bridged w (snd (deliver w out html))"
  by (simp add: deliver_def bridged_basic bridged_writeTo is_callback_simps stage_of_simps
        split: option.split)

lemma bridged_check_response: "bridged w (snd (check_response l u resp))"
  by (simp add: check_response_def bridged_basic split: option.split)

lemma bridged_try_block: "bridged w (snd (try_block w src out tmo tm))"
  unfolding try_block_def
  by (intro bridged_and_then bridged_call_page)
     (simp_all add: bridged_basic bridged_check_response bridged_checkIfReSpec
        bridged_generateHTML bridged_deliver is_callback_simps stage_of_simps split: option.split)

lemma bridged_fetchAndWrite: "bridged w (snd (fetchAndWrite w src out opts))"
  unfolding fetchAndWrite_def Let_def
  by (intro bridged_and_then bridged_try_finally)
     (simp_all add: bridged_basic bridged_try_block is_callback_simps stage_of_simps)

text \<open>The awaits of a run that resolves.\<close>

lemma awaited_quiet: "list_all (\<lambda>eff. stage_of eff = None) t \<Longrightarrow> awaited t = []"
  by (induction t) (simp_all add: awaited_def)

lemma quiet_require_and_call:
  "list_all (\<lambda>eff. stage_of eff = None) (snd (require_and_call name m))"
  unfolding require_and_call_def
  by (intro all_and_then) (simp_all add: page_basic stage_of_simps split: sum.split)

lemma quiet_evaluateHTML:
  "list_all (\<lambda>eff. stage_of eff = None) (snd (evaluateHTML d version ms))"
  unfolding evaluateHTML_def
  by (intro all_and_then)
     (simp_all add: page_basic quiet_require_and_call all_and_then timeout_race_def
        stage_of_simps Let_def split: ready_race.split sum.split)

lemma awaited_checkIfReSpec: "awaited (snd (checkIfReSpec w)) = [At_isRespec]"
  by (simp add: checkIfReSpec_def snd_and_then snd_page_evaluate ret_def throw_def
        awaited_Nil awaited_Cons awaited_append awaited_relay stage_of_simps split: completion.split)

lemma awaited_generateHTML:
  assumes "generateHTML w u tm = (Return html, tg)"
  shows "awaited tg = [At_waitForFunction, At_getVersion, At_evaluateHTML]"
proof -
  let ?ms = "remaining tm (now_at_wait (host w))"
  let ?version = "map as_json (getVersion (respecVersion (doc w)))"
  from assms obtain t3 where
    ev: "try_catch (page_evaluate w At_evaluateHTML ''evaluateHTML''
                      (evaluateHTML (doc w) (map as_json ?version) ?ms))
           (\<lambda>err. throw (Error (generation_error_msg (lib w) u ?version err))) = (Return html, t3)"
    and tg: "tg = WaitForFunction # relay (arrivals (doc w) At_waitForFunction)
                  @ Evaluate ''getVersion'' # relay (arrivals (doc w) At_getVersion) @ t3"
    by (auto simp: generateHTML_def and_then_Return_iff call_page_Return_iff page_evaluate_def
          ret_def)
  let ?pe = "page_evaluate w At_evaluateHTML ''evaluateHTML''
               (evaluateHTML (doc w) (map as_json ?version) ?ms)"
  have "t3 = snd ?pe"
    using ev by (cases ?pe; cases "fst ?pe") (auto simp: try_catch_simps throw_def)
  then have "awaited t3 = [At_evaluateHTML]"
    using awaited_quiet [OF quiet_evaluateHTML [of "doc w" "map as_json ?version" ?ms]]
    by (simp add: snd_page_evaluate awaited_Nil awaited_Cons awaited_append awaited_relay stage_of_simps)
  then show ?thesis
    by (simp add: tg awaited_Nil awaited_Cons awaited_append awaited_relay stage_of_simps)
qed

lemma awaited_deliver:
  assumes "deliver w out html = (Return (), td)"
  shows "awaited td = (case out of None \<Rightarrow> [] | Some p \<Rightarrow> if p = [] then [] else [At_writeFile])"
proof (cases out)
  case None
  with assms show ?thesis
    by (auto simp: deliver_def emit_def awaited_Nil awaited_Cons stage_of_simps)
next
  case (Some p)
  show ?thesis
  proof (cases "p = []")
    case True
    with assms Some show ?thesis
      by (auto simp: deliver_def ret_def awaited_Nil)
  next
    case False
    with assms Some show ?thesis
      by (cases "writeFile_result (host w)")
         (auto simp: deliver_def writeTo_def Let_def call_page_def try_catch_simps and_then_simps
            emit_def process_exit_def awaited_Nil awaited_Cons awaited_relay stage_of_simps)
  qed
qed

lemma awaited_resolved_run:
  assumes "fetchAndWrite w src out opts = (Return html, t)"
  shows "awaited t = awaits_of out"
proof -
  let ?tmo = "or_default 300000 (timeout opts)"
  let ?tm = "createTimer (now_at_createTimer (host w)) ?tmo"
  from assms obtain dir tb where
    body: "try_block w src out ?tmo ?tm = (Return html, tb)"
    and t: "t = Mkdtemp (tmpdir (host w) @ ''/respec2html-'')
             # Launch dir (if or_default False (disableSandbox opts) then Some [''--no-sandbox''] else None)
                 (or_default False (debug opts))
             # tb @ [BrowserClose]"
    by (rule fetchAndWrite_ReturnE)
  from body obtain u tc tg td where
    check: "snd (checkIfReSpec w) = tc"
    and gen: "generateHTML w u ?tm = (Return html, tg)"
    and del: "deliver w out html = (Return (), td)"
    and tb: "tb = [NewPage, ExposeFunction ''onRespecErrorOrWarning'', EvaluateOnNewDocument,
               Goto (href u) ?tmo] @ relay (arrivals (doc w) At_goto) @ tc @ tg
              @ BeforeWrite # relay (arrivals (doc w) At_beforeWrite) @ td
              @ PageClose # relay (arrivals (doc w) At_pageClose)"
    by (rule try_block_ReturnE)
  have "awaited tc = [At_isRespec]"
    using awaited_checkIfReSpec [of w] check by simp
  then show ?thesis
    using awaited_generateHTML [OF gen] awaited_deliver [OF del]
    by (simp add: t tb awaited_Nil awaited_Cons awaited_append awaited_relay stage_of_simps awaits_of_def)
qed

text \<open>
  C4, as amended.  Every \<open>respecerror\<close> event whose call reaches the controller invokes
  \<open>onError(detail)\<close> once, every such \<open>respecwarn\<close> event invokes \<open>onWarning(detail)\<close>
  once, no other event invokes anything, and the invocations come in the order of the
  events.  On every run, whatever its outcome, the callback invocations are exactly those
  due to the events whose calls arrived during the awaits the run went through, in order;
  a run that resolves went through the awaits from navigation to \<open>page.close()\<close>.  The
  calls that arrive are those of all the events dispatched while the page lives, and, of
  the events whose calls are under way during \<open>page.close()\<close>, of the first
  \<open>reach_before_close\<close> only: the others are lost with the page.
\<close>

theorem bridge_delivers_arrived_events_once_in_order:
  "relay evs = map callback_of (filter is_diagnostic evs)
   \<and> filter is_callback (snd (fetchAndWrite w src out opts))
       = map callback_of
           (filter is_diagnostic
              (concat (map (arrivals (doc w)) (awaited (snd (fetchAndWrite w src out opts))))))
   \<and> (fetchAndWrite w src out opts = (Return html, t) \<longrightarrow> awaited t = awaits_of out)
   \<and> arrivals (doc w) st
       = (if st = At_pageClose then take (reach_before_close (doc w)) (events (doc w) st)
          else events (doc w) st)"
proof -
  have bridge: "\<And>evs. relay evs = map callback_of (filter is_diagnostic evs)"
  proof -
    fix evs
    show "relay evs = map callback_of (filter is_diagnostic evs)"
      by (induction evs) (simp_all add: relay_def dispatch_event_callback)
  qed
  have "filter is_callback (snd (fetchAndWrite w src out opts))
          = relay (concat (map (arrivals (doc w)) (awaited (snd (fetchAndWrite w src out opts)))))"
    using bridged_fetchAndWrite [of w src out opts] by (simp add: bridged_def)
  then show ?thesis
    using bridge awaited_resolved_run [of w src out opts html t]
    by (simp add: arrivals_def)
qed

text \<open>
  The claim as stated fails: an error dispatched before the session is released, whose
  call has not reached the controller when \<open>page.close()\<close> destroys the page, never
  invokes \<open>onError\<close>.  The run resolves all the same.
\<close>

theorem late_event_is_lost:
  "is_diagnostic late_event
   \<and> events (doc late_event_world) At_pageClose = [late_event]
   \<and> fst (fetchAndWrite late_event_world sample_src None default_options) = Return sample_markup
   \<and> filter is_callback (snd (fetchAndWrite late_event_world sample_src None default_options))
       = [OnWarning ''w1'', OnError ''e1'', OnWarning ''w2'']
   \<and> callback_of late_event = OnError ''e9''
   \<and> OnError ''e9'' \<notin> set (snd (fetchAndWrite late_event_world sample_src None default_options))
   \<and> awaited (snd (fetchAndWrite late_event_world sample_src None default_options))
       = [At_goto, At_isRespec, At_waitForFunction, At_getVersion, At_evaluateHTML,
          At_beforeWrite, At_pageClose]"
  by code_simp

text \<open>
  The amended statement at the sample run: two warnings, an error and an unrelated event,
  dispatched while the run waits for \<open>evaluateHTML\<close>.
\<close>

theorem bridge_delivers_arrived_events_once_in_order_witness:
  "relay sample_events = [OnWarning ''w1'', OnError ''e1'', OnWarning ''w2'']
   \<and> fst (fetchAndWrite sample_world sample_src (Some ''out.html'') default_options)
       = Return sample_markup
   \<and> awaited (snd (fetchAndWrite sample_world sample_src (Some ''out.html'') default_options))
       = [At_goto, At_isRespec, At_waitForFunction, At_getVersion, At_evaluateHTML,
          At_beforeWrite, At_writeFile, At_pageClose]
   \<and> filter is_callback (snd (fetchAndWrite sample_world sample_src (Some ''out.html'') default_options))
       = [OnWarning ''w1'', OnError ''e1'', OnWarning ''w2'']"
proof -
  let ?run = "fetchAndWrite sample_world sample_src (Some ''out.html'') default_options"
  have res: "fst ?run = Return sample_markup"
    by code_simp
  then have run: "?run = (Return sample_markup, snd ?run)"
    by (simp add: prod_eq_iff)
  have evs: "map callback_of (filter is_diagnostic sample_events)
          = [OnWarning ''w1'', OnError ''e1'', OnWarning ''w2'']"
    by (simp add: sample_events_def is_diagnostic_def callback_of_def)
  have all: "concat (map (arrivals (doc sample_world)) (awaits_of (Some ''out.html''))) = sample_events"
    by (simp add: awaits_of_def arrivals_def sample_world_def sample_document_def)
  have stages: "awaits_of (Some ''out.html'')
      = [At_goto, At_isRespec, At_waitForFunction, At_getVersion, At_evaluateHTML,
         At_beforeWrite, At_writeFile, At_pageClose]"
    by (simp add: awaits_of_def)
  from bridge_delivers_arrived_events_once_in_order
            [of sample_events sample_world sample_src "Some ''out.html''" default_options
               sample_markup "snd ?run" At_pageClose] run
  have r: "relay sample_events = map callback_of (filter is_diagnostic sample_events)"
    and cb: "filter is_callback (snd ?run)
       = map callback_of (filter is_diagnostic
              (concat (map (arrivals (doc sample_world)) (awaited (snd ?run)))))"
    and aw: "awaited (snd ?run) = awaits_of (Some ''out.html'')"
    by simp_all
  have "filter is_callback (snd ?run) = map callback_of (filter is_diagnostic sample_events)"
    using cb by (simp only: aw all)
  then show ?thesis
    using res evs r aw stages by simp
qed

section \<open>Properties: the bound on navigation\<close>

lemma try_block_gotos:
  assumes "newPage_result (browser w) = Inr ()" and "exposeFunction_result (browser w) = Inr ()"
    and "new_URL (lib w) src = Some u"
  shows "filter is_goto (snd (try_block w src out tmo tm)) = [Goto (href u) tmo]"
proof -
  have relay: "filter is_goto (relay (arrivals (doc w) At_goto)) = []"
    by (rule no_goto_later [OF later_of_page [OF page_relay]])
  have after: "\<And>resp. filter is_goto
     (snd (and_then (check_response (lib w) u resp)
       (\<lambda>_. and_then (checkIfReSpec w)
       (\<lambda>_. and_then (generateHTML w u tm)
       (\<lambda>html. and_then (call_page w At_beforeWrite BeforeWrite (beforeWrite_result (host w)))
       (\<lambda>_. and_then (deliver w out html)
       (\<lambda>_. and_then (call_page w At_pageClose PageClose (page_close_result (browser w)))
       (\<lambda>_. ret html)))))))) = []"
    by (rule no_goto_later [OF later_after_navigation])
  show ?thesis
    using assms relay after
    by (simp add: try_block_def and_then_simps call_def emit_def ret_def snd_call_page
          snd_and_then [where m = "call_page w At_goto (Goto (href u) tmo) (goto_result (browser w))"]
          is_goto_def split: completion.split)
qed

lemma snd_try_finally_close:
  "filter is_goto (snd (try_finally (c, t) (call BrowserClose r))) = filter is_goto t"
  by (cases c; cases r) (simp_all add: try_finally_def call_def is_goto_def)

text \<open>
  C6, as amended.  When the session is acquired, the page is set up and the source parses
  as a URL, \<open>page.goto\<close> is called exactly once, with the URL and with the configured
  timeout (\<open>options.timeout\<close>, 300000 ms by default) as its bound: the full duration,
  whatever the clock shows when navigation begins.  The timer is not consulted.
\<close>

theorem navigation_bounded_by_configured_timeout:
  assumes "mkdtemp_result (host w) = Inr dir" and "launch_result (host w) = Inr ()"
    and "newPage_result (browser w) = Inr ()" and "exposeFunction_result (browser w) = Inr ()"
    and "new_URL (lib w) src = Some u"
  shows "filter is_goto (snd (fetchAndWrite w src out opts))
           = [Goto (href u) (or_default 300000 (timeout opts))]"
proof -
  let ?tmo = "or_default 300000 (timeout opts)"
  let ?body = "try_block w src out ?tmo (createTimer (now_at_createTimer (host w)) ?tmo)"
  obtain c t where body: "?body = (c, t)" by (cases ?body)
  have "filter is_goto t = [Goto (href u) ?tmo]"
    using try_block_gotos [OF assms(3-5), of out ?tmo "createTimer (now_at_createTimer (host w)) ?tmo"]
      body by simp
  then show ?thesis
    using fetchAndWrite_acquired [OF assms(1,2), of src out opts] body
    by (simp add: Let_def snd_try_finally_close is_goto_def)
qed

text \<open>
  The claim as stated fails: in the sample run the timer is created at 1000 and
  navigation begins at 1500; \<open>deadline.remaining()\<close> is then 299500, yet \<open>page.goto\<close> is
  given 300000.
\<close>

theorem navigation_bound_is_not_remaining_budget:
  "remaining (createTimer (now_at_createTimer (host sample_world)) 300000)
     (now_at_goto (host sample_world)) = 299500
   \<and> filter is_goto (snd (fetchAndWrite sample_world sample_src None default_options))
       = [Goto ''https://example.org/spec.html?key=SECRET'' 300000]"
proof -
  have "remaining (createTimer (now_at_createTimer (host sample_world)) 300000)
          (now_at_goto (host sample_world)) = 299500"
    by (simp add: remaining_createTimer sample_world_def sample_host_def)
  moreover have "filter is_goto (snd (fetchAndWrite sample_world sample_src None default_options))
       = [Goto ''https://example.org/spec.html?key=SECRET'' 300000]"
    by code_simp
  ultimately show ?thesis by simp
qed

text \<open>The amended statement at the sample run.\<close>

theorem navigation_bounded_by_configured_timeout_witness:
  "mkdtemp_result (host sample_world) = Inr ''/tmp/respec2html-Ab12Cd''
   \<and> launch_result (host sample_world) = Inr ()
   \<and> newPage_result (browser sample_world) = Inr ()
   \<and> exposeFunction_result (browser sample_world) = Inr ()
   \<and> new_URL (lib sample_world) sample_src = Some sample_url
   \<and> filter is_goto (snd (fetchAndWrite sample_world sample_src None default_options))
       = [Goto ''https://example.org/spec.html?key=SECRET'' 300000]"
proof -
  let ?w = sample_world
  have a: "mkdtemp_result (host ?w) = Inr ''/tmp/respec2html-Ab12Cd''" by code_simp
  have b: "launch_result (host ?w) = Inr ()" by code_simp
  have c: "newPage_result (browser ?w) = Inr ()" by code_simp
  have d: "exposeFunction_result (browser ?w) = Inr ()" by code_simp
  have e: "new_URL (lib ?w) sample_src = Some sample_url" by code_simp
  have f: "or_default 300000 (timeout default_options) = 300000"
    by (simp add: or_default_def default_options_def)
  have g: "href sample_url = ''https://example.org/spec.html?key=SECRET''"
    by (simp add: sample_url_def)
  show ?thesis
    using navigation_bounded_by_configured_timeout [OF a b c d e, of None default_options]
      a b c d e f g
    by simp
qed

section \<open>Properties: the output sink\<close>

lemma no_output_page: "list_all page_effect t \<Longrightarrow> filter is_output t = []"
  by (induction t) (auto simp: page_effect_def is_output_def split: effect.splits)

lemma deliver_ReturnE:
  assumes "deliver w out html = (Return (), td)"
  shows "filter is_output td =
           (case out of
              None \<Rightarrow> [StdoutWrite html]
            | Some p \<Rightarrow>
                if p = [] then []
                else [WriteFile (if path_isAbsolute (lib w) p then p
                                 else path_resolve (lib w) (cwd (host w)) p) html ''utf-8''])"
proof (cases out)
  case None
  with assms show ?thesis
    by (auto simp: deliver_def emit_def is_output_def)
next
  case (Some p)
  show ?thesis
  proof (cases "p = []")
    case True
    with assms Some show ?thesis
      by (auto simp: deliver_def ret_def)
  next
    case False
    have "filter is_output (relay (arrivals (doc w) At_writeFile)) = []"
      by (rule no_output_page [OF page_relay])
    with assms Some False show ?thesis
      by (cases "writeFile_result (host w)")
         (auto simp: deliver_def writeTo_def Let_def call_page_def try_catch_simps and_then_simps
            emit_def process_exit_def is_output_def)
  qed
qed

lemma written_files_Cons:
  "written_files (eff # t) fs
     = written_files t (case eff of WriteFile p data _ \<Rightarrow> fs(p \<mapsto> data) | _ \<Rightarrow> fs)"
  by (simp add: written_files_def)

lemma written_files_output: "written_files t fs = written_files (filter is_output t) fs"
proof (induction t arbitrary: fs)
  case Nil
  show ?case by simp
next
  case (Cons eff t)
  let ?fs' = "case eff of WriteFile p data _ \<Rightarrow> fs(p \<mapsto> data) | _ \<Rightarrow> fs"
  show ?case
  proof (cases "is_output eff")
    case True
    then have "written_files (filter is_output (eff # t)) fs = written_files (filter is_output t) ?fs'"
      by (simp add: written_files_Cons)
    then show ?thesis
      using Cons.IH [of ?fs'] by (simp add: written_files_Cons)
  next
    case False
    then have "?fs' = fs"
      by (cases eff) (simp_all add: is_output_def)
    then show ?thesis
      using False Cons.IH [of fs] by (simp add: written_files_Cons)
  qed
qed

lemma stdout_writes_output: "stdout_writes t = stdout_writes (filter is_output t)"
  by (induction t) (auto simp: stdout_writes_def is_output_def split: effect.splits)

text \<open>
  C9.  On a run that resolves with \<open>html\<close>, the outputs are determined by the destination:
  for \<open>null\<close> the markup is written to standard output and no file is written; for the
  empty string nothing is written anywhere; for any other string one file is written,
  at the path itself when it is absolute and at the path resolved against the current
  working directory otherwise, as \<open>utf-8\<close>, with the returned string as its content,
  replacing whatever the file system held there.  In every case the value the run
  resolves with is the markup \<open>generateHTML\<close> returned.
\<close>

theorem output_sink_by_destination:
  assumes "fetchAndWrite w src out opts = (Return html, t)"
  shows "filter is_output t =
           (case out of
              None \<Rightarrow> [StdoutWrite html]
            | Some p \<Rightarrow>
                if p = [] then []
                else [WriteFile (if path_isAbsolute (lib w) p then p
                                 else path_resolve (lib w) (cwd (host w)) p) html ''utf-8''])
     \<and> stdout_writes t = (case out of None \<Rightarrow> [html] | Some p \<Rightarrow> [])
     \<and> written_files t fs =
           (case out of
              None \<Rightarrow> fs
            | Some p \<Rightarrow>
                if p = [] then fs
                else fs((if path_isAbsolute (lib w) p then p
                         else path_resolve (lib w) (cwd (host w)) p) \<mapsto> html))
     \<and> (\<exists>u tg. new_URL (lib w) src = Some u
            \<and> generateHTML w u (createTimer (now_at_createTimer (host w))
                                   (or_default 300000 (timeout opts))) = (Return html, tg))"
proof -
  let ?tmo = "or_default 300000 (timeout opts)"
  let ?tm = "createTimer (now_at_createTimer (host w)) ?tmo"
  from assms obtain dir tb where
    body: "try_block w src out ?tmo ?tm = (Return html, tb)"
    and t: "t = Mkdtemp (tmpdir (host w) @ ''/respec2html-'')
             # Launch dir (if or_default False (disableSandbox opts) then Some [''--no-sandbox''] else None)
                 (or_default False (debug opts))
             # tb @ [BrowserClose]"
    by (rule fetchAndWrite_ReturnE)
  from body obtain u tc tg td where
    url: "new_URL (lib w) src = Some u"
    and check: "snd (checkIfReSpec w) = tc"
    and gen: "generateHTML w u ?tm = (Return html, tg)"
    and del: "deliver w out html = (Return (), td)"
    and tb: "tb = [NewPage, ExposeFunction ''onRespecErrorOrWarning'', EvaluateOnNewDocument,
               Goto (href u) ?tmo] @ relay (arrivals (doc w) At_goto) @ tc @ tg
              @ BeforeWrite # relay (arrivals (doc w) At_beforeWrite) @ td
              @ PageClose # relay (arrivals (doc w) At_pageClose)"
    by (rule try_block_ReturnE)
  have quiet: "filter is_output tc = []" "filter is_output tg = []"
    "\<And>st. filter is_output (relay (arrivals (doc w) st)) = []"
    using no_output_page [OF page_checkIfReSpec [of w]] check
      no_output_page [OF page_generateHTML [of w u ?tm]] gen
      no_output_page [OF page_relay]
    by simp_all
  have out: "filter is_output t = filter is_output td"
    by (simp add: t tb quiet is_output_def)
  let ?sink = "case out of
              None \<Rightarrow> [StdoutWrite html]
            | Some p \<Rightarrow>
                if p = [] then []
                else [WriteFile (if path_isAbsolute (lib w) p then p
                                 else path_resolve (lib w) (cwd (host w)) p) html ''utf-8'']"
  have sink: "filter is_output t = ?sink"
    using out deliver_ReturnE [OF del] by simp
  have "stdout_writes t = stdout_writes ?sink"
    using stdout_writes_output [of t] sink by simp
  then have std: "stdout_writes t = (case out of None \<Rightarrow> [html] | Some p \<Rightarrow> [])"
    by (simp add: stdout_writes_def split: option.split)
  have "written_files t fs = written_files ?sink fs"
    using written_files_output [of t fs] sink by simp
  then have files: "written_files t fs =
           (case out of
              None \<Rightarrow> fs
            | Some p \<Rightarrow>
                if p = [] then fs
                else fs((if path_isAbsolute (lib w) p then p
                         else path_resolve (lib w) (cwd (host w)) p) \<mapsto> html))"
    by (simp add: written_files_def split: option.split)
  show ?thesis
    using sink std files url gen by blast
qed

text \<open>
  The sample run with the relative destination \<open>out.html\<close>, over a file system that
  already holds a file of that name.
\<close>

theorem output_sink_by_destination_witness:
  "fst (fetchAndWrite sample_world sample_src (Some ''out.html'') default_options)
     = Return sample_markup
   \<and> filter is_output (snd (fetchAndWrite sample_world sample_src (Some ''out.html'') default_options))
       = [WriteFile ''/home/editor/out.html'' sample_markup ''utf-8'']
   \<and> stdout_writes (snd (fetchAndWrite sample_world sample_src (Some ''out.html'') default_options))
       = []
   \<and> written_files (snd (fetchAndWrite sample_world sample_src (Some ''out.html'') default_options))
         [''/home/editor/out.html'' \<mapsto> ''old'']
       = [''/home/editor/out.html'' \<mapsto> sample_markup]"
proof -
  let ?run = "fetchAndWrite sample_world sample_src (Some ''out.html'') default_options"
  have res: "fst ?run = Return sample_markup"
    by code_simp
  then have run: "?run = (Return sample_markup, snd ?run)"
    by (simp add: prod_eq_iff)
  have path: "(if path_isAbsolute (lib sample_world) ''out.html'' then ''out.html''
               else path_resolve (lib sample_world) (cwd (host sample_world)) ''out.html'')
              = ''/home/editor/out.html''"
    by (simp add: sample_world_def sample_library_def sample_host_def)
  show ?thesis
    using output_sink_by_destination
            [OF run, of "[''/home/editor/out.html'' \<mapsto> ''old'']"] res path
    by simp
qed

end
